theory Spec2Isabelle
  imports Complex_Main
begin

unbundle bit_operations_syntax

section \<open>Register map of the AD7745 driver\<close>

text \<open>
  The class constants of \<open>AD7745\<close> in \<open>AD7745_Driver.py\<close>. Python integers are
  unbounded, so every register value is an \<open>int\<close>; \<open>1 << n\<close> is written as the
  numeral it denotes.
\<close>

definition I2C_INDEX :: int where "I2C_INDEX = 0"
definition WRITE_ADDR :: int where "WRITE_ADDR = 0x90"
definition READ_ADDR :: int where "READ_ADDR = 0x91"

definition STATUS_ADDR :: int where "STATUS_ADDR = 0x00"
definition STATUS_EXCERR :: int where "STATUS_EXCERR = 8"
definition STATUS_RDY :: int where "STATUS_RDY = 4"
definition STATUS_RDYVT :: int where "STATUS_RDYVT = 2"
definition STATUS_RDYCAP :: int where "STATUS_RDYCAP = 1"

definition CAP_DATA_H_ADDR :: int where "CAP_DATA_H_ADDR = 0x01"
definition VT_DATA_H_ADDR :: int where "VT_DATA_H_ADDR = 0x04"

definition CAP_SETUP_ADDR :: int where "CAP_SETUP_ADDR = 0x07"
definition CAP_SETUP_CAPEN :: int where "CAP_SETUP_CAPEN = 128"
definition CAP_SETUP_CIN2 :: int where "CAP_SETUP_CIN2 = 64"
definition CAP_SETUP_CAPDIFF :: int where "CAP_SETUP_CAPDIFF = 32"
definition CAP_SETUP_CAPCHOP :: int where "CAP_SETUP_CAPCHOP = 1"

definition VT_SETUP_ADDR :: int where "VT_SETUP_ADDR = 0x08"
definition VT_SETUP_VTEN :: int where "VT_SETUP_VTEN = 128"
definition VT_SETUP_VTMD1 :: int where "VT_SETUP_VTMD1 = 64"
definition VT_SETUP_VTMD0 :: int where "VT_SETUP_VTMD0 = 32"
definition VT_SETUP_EXTREF :: int where "VT_SETUP_EXTREF = 16"
definition VT_SETUP_VTSHORT :: int where "VT_SETUP_VTSHORT = 2"
definition VT_SETUP_VTCHOP :: int where "VT_SETUP_VTCHOP = 1"

definition EXC_SETUP_ADDR :: int where "EXC_SETUP_ADDR = 0x09"
definition EXC_SETUP_CLKCTRL :: int where "EXC_SETUP_CLKCTRL = 128"
definition EXC_SETUP_EXCON :: int where "EXC_SETUP_EXCON = 64"
definition EXC_SETUP_EXCB :: int where "EXC_SETUP_EXCB = 32"
definition EXC_SETUP_UEXCB :: int where "EXC_SETUP_UEXCB = 16"
definition EXC_SETUP_EXCA :: int where "EXC_SETUP_EXCA = 8"
definition EXC_SETUP_UEXCA :: int where "EXC_SETUP_UEXCA = 4"
definition EXC_SETUP_EXCLVL1 :: int where "EXC_SETUP_EXCLVL1 = 2"
definition EXC_SETUP_EXCLVL0 :: int where "EXC_SETUP_EXCLVL0 = 1"

definition CONFIG_ADDR :: int where "CONFIG_ADDR = 0x0A"
definition CONFIG_VTFS1 :: int where "CONFIG_VTFS1 = 128"
definition CONFIG_VTFS0 :: int where "CONFIG_VTFS0 = 64"
definition CONFIG_CAPFS2 :: int where "CONFIG_CAPFS2 = 32"
definition CONFIG_CAPFS1 :: int where "CONFIG_CAPFS1 = 16"
definition CONFIG_CAPFS0 :: int where "CONFIG_CAPFS0 = 8"
definition CONFIG_MD2 :: int where "CONFIG_MD2 = 4"
definition CONFIG_MD1 :: int where "CONFIG_MD1 = 2"
definition CONFIG_MD0 :: int where "CONFIG_MD0 = 1"

definition CAP_DAC_A_ADDR :: int where "CAP_DAC_A_ADDR = 0x0B"
definition CAP_DAC_A_DACAENA :: int where "CAP_DAC_A_DACAENA = 128"
definition CAP_DAC_A_DACA7bit :: int where "CAP_DAC_A_DACA7bit = 0x7F"

definition CAP_DAC_B_ADDR :: int where "CAP_DAC_B_ADDR = 0x0C"
definition CAP_DAC_B_DACBENB :: int where "CAP_DAC_B_DACBENB = 128"
definition CAP_DAC_B_DACB7bit :: int where "CAP_DAC_B_DACB7bit = 0x7F"

definition CAP_OFFSET_H_ADDR :: int where "CAP_OFFSET_H_ADDR = 0x0D"
definition CAP_GRAIN_H_ADDR :: int where "CAP_GRAIN_H_ADDR = 0x0F"
definition VOLT_GRAIN_H_ADDR :: int where "VOLT_GRAIN_H_ADDR = 0x11"

section \<open>Register structures\<close>

text \<open>The dataclasses nested in \<open>AD7745\<close>, field for field.\<close>

datatype CapFilter =
  CONV87Hz | CONV79Hz | CONV44Hz | CONV22Hz | CONV14Hz | CONV11Hz | CONV9Hz | CONV8Hz

record vt_setup_reg =
  VTEN :: bool
  VTMD1 :: bool
  VTMD0 :: bool
  EXTREF :: bool
  VTSHORT :: bool
  VTCHOP :: bool

record cap_setup_reg =
  CAPEN :: bool
  CIN2 :: bool
  CAPDIFF :: bool
  CAPCHOP :: bool

record exc_setup_reg =
  CLKCTRL :: bool
  EXCON :: bool
  EXCB :: bool
  UEXCB :: bool
  EXCA :: bool
  UEXCA :: bool
  EXCLVL1 :: bool
  EXCLVL0 :: bool

record configuration_reg =
  VTFS1 :: bool
  VTFS0 :: bool
  CAPFS2 :: bool
  CAPFS1 :: bool
  CAPFS0 :: bool
  MD2 :: bool
  MD1 :: bool
  MD0 :: bool

record cap_daca_reg =
  DACAENA :: bool
  DACA7bit :: int

record cap_dacb_reg =
  DACBENB :: bool
  DACB7bit :: int

record status_reg =
  EXCERR :: bool
  RDY :: bool
  RDYVT :: bool
  RDYCAP :: bool

section \<open>Register codec\<close>

text \<open>
  Each setter computes the register byte with \<open>value = 0\<close> followed by one
  \<open>if val.FIELD: value += MASK\<close> per field; each getter rebuilds the structure with
  \<open>bool(read & MASK)\<close> per field. The byte computations are named \<open>*_encode\<close> and
  \<open>*_decode\<close> here; the setters and getters below call them.
\<close>

definition flag :: "bool \<Rightarrow> int \<Rightarrow> int" where
  "flag b m = (if b then m else 0)"

definition cap_setup_encode :: "cap_setup_reg \<Rightarrow> int" where
  "cap_setup_encode val =
     0 + flag (CAPEN val) CAP_SETUP_CAPEN + flag (CIN2 val) CAP_SETUP_CIN2
       + flag (CAPDIFF val) CAP_SETUP_CAPDIFF + flag (CAPCHOP val) CAP_SETUP_CAPCHOP"

definition cap_setup_decode :: "int \<Rightarrow> cap_setup_reg" where
  "cap_setup_decode read_data =
     \<lparr> CAPEN = (read_data AND CAP_SETUP_CAPEN \<noteq> 0),
       CIN2 = (read_data AND CAP_SETUP_CIN2 \<noteq> 0),
       CAPDIFF = (read_data AND CAP_SETUP_CAPDIFF \<noteq> 0),
       CAPCHOP = (read_data AND CAP_SETUP_CAPCHOP \<noteq> 0) \<rparr>"

definition vt_setup_encode :: "vt_setup_reg \<Rightarrow> int" where
  "vt_setup_encode val =
     0 + flag (VTEN val) VT_SETUP_VTEN + flag (VTMD1 val) VT_SETUP_VTMD1
       + flag (VTMD0 val) VT_SETUP_VTMD0 + flag (EXTREF val) VT_SETUP_EXTREF
       + flag (VTSHORT val) VT_SETUP_VTSHORT + flag (VTCHOP val) VT_SETUP_VTCHOP"

definition vt_setup_decode :: "int \<Rightarrow> vt_setup_reg" where
  "vt_setup_decode read_string =
     \<lparr> VTEN = (read_string AND VT_SETUP_VTEN \<noteq> 0),
       VTMD1 = (read_string AND VT_SETUP_VTMD1 \<noteq> 0),
       VTMD0 = (read_string AND VT_SETUP_VTMD0 \<noteq> 0),
       EXTREF = (read_string AND VT_SETUP_EXTREF \<noteq> 0),
       VTSHORT = (read_string AND VT_SETUP_VTSHORT \<noteq> 0),
       VTCHOP = (read_string AND VT_SETUP_VTCHOP \<noteq> 0) \<rparr>"

definition exc_setup_encode :: "exc_setup_reg \<Rightarrow> int" where
  "exc_setup_encode val =
     0 + flag (CLKCTRL val) EXC_SETUP_CLKCTRL + flag (EXCON val) EXC_SETUP_EXCON
       + flag (EXCB val) EXC_SETUP_EXCB + flag (UEXCB val) EXC_SETUP_UEXCB
       + flag (EXCA val) EXC_SETUP_EXCA + flag (UEXCA val) EXC_SETUP_UEXCA
       + flag (EXCLVL1 val) EXC_SETUP_EXCLVL1 + flag (EXCLVL0 val) EXC_SETUP_EXCLVL0"

definition exc_setup_decode :: "int \<Rightarrow> exc_setup_reg" where
  "exc_setup_decode read_string =
     \<lparr> CLKCTRL = (read_string AND EXC_SETUP_CLKCTRL \<noteq> 0),
       EXCON = (read_string AND EXC_SETUP_EXCON \<noteq> 0),
       EXCB = (read_string AND EXC_SETUP_EXCB \<noteq> 0),
       UEXCB = (read_string AND EXC_SETUP_UEXCB \<noteq> 0),
       EXCA = (read_string AND EXC_SETUP_EXCA \<noteq> 0),
       UEXCA = (read_string AND EXC_SETUP_UEXCA \<noteq> 0),
       EXCLVL1 = (read_string AND EXC_SETUP_EXCLVL1 \<noteq> 0),
       EXCLVL0 = (read_string AND EXC_SETUP_EXCLVL0 \<noteq> 0) \<rparr>"

definition configuration_encode :: "configuration_reg \<Rightarrow> int" where
  "configuration_encode val =
     0 + flag (VTFS1 val) CONFIG_VTFS1 + flag (VTFS0 val) CONFIG_VTFS0
       + flag (CAPFS2 val) CONFIG_CAPFS2 + flag (CAPFS1 val) CONFIG_CAPFS1
       + flag (CAPFS0 val) CONFIG_CAPFS0 + flag (MD2 val) CONFIG_MD2
       + flag (MD1 val) CONFIG_MD1 + flag (MD0 val) CONFIG_MD0"

definition configuration_decode :: "int \<Rightarrow> configuration_reg" where
  "configuration_decode read_string =
     \<lparr> VTFS1 = (read_string AND CONFIG_VTFS1 \<noteq> 0),
       VTFS0 = (read_string AND CONFIG_VTFS0 \<noteq> 0),
       CAPFS2 = (read_string AND CONFIG_CAPFS2 \<noteq> 0),
       CAPFS1 = (read_string AND CONFIG_CAPFS1 \<noteq> 0),
       CAPFS0 = (read_string AND CONFIG_CAPFS0 \<noteq> 0),
       MD2 = (read_string AND CONFIG_MD2 \<noteq> 0),
       MD1 = (read_string AND CONFIG_MD1 \<noteq> 0),
       MD0 = (read_string AND CONFIG_MD0 \<noteq> 0) \<rparr>"

definition status_decode :: "int \<Rightarrow> status_reg" where
  "status_decode read_string =
     \<lparr> EXCERR = (read_string AND STATUS_EXCERR \<noteq> 0),
       RDY = (read_string AND STATUS_RDY \<noteq> 0),
       RDYVT = (read_string AND STATUS_RDYVT \<noteq> 0),
       RDYCAP = (read_string AND STATUS_RDYCAP \<noteq> 0) \<rparr>"

section \<open>The host adapter and the clock\<close>

text \<open>
  The driver talks to the chip through a Binho host adapter (\<open>self.i2cbus\<close>) and reads
  the wall clock with \<open>time.time()\<close>. Neither belongs to the driver, so both are a
  parameter of the model: a record of operations over an adapter state \<open>'d\<close>. The three
  bus commands answer with a reply string that \<open>_check_device_success\<close> inspects;
  \<open>readBytesI2C\<close> answers with text that \<open>read_byte\<close> rejects when it carries
  \<open>NG\<close> and otherwise parses into a list of integers, which the model takes as already
  parsed. The clock is read as an exact real number of seconds.
\<close>

datatype read_reply = NG | Bytes "int list"

record 'd host =
  startI2C :: "int \<Rightarrow> int \<Rightarrow> 'd \<Rightarrow> string \<times> 'd"
  writeByteI2C :: "int \<Rightarrow> int \<Rightarrow> 'd \<Rightarrow> string \<times> 'd"
  endI2C :: "int \<Rightarrow> bool \<Rightarrow> 'd \<Rightarrow> string \<times> 'd"
  readBytesI2C :: "int \<Rightarrow> int \<Rightarrow> int \<Rightarrow> 'd \<Rightarrow> read_reply \<times> 'd"
  setLEDRGB :: "int \<Rightarrow> int \<Rightarrow> int \<Rightarrow> 'd \<Rightarrow> 'd"
  time :: "'d \<Rightarrow> real \<times> 'd"

text \<open>
  Every call that leaves the driver is recorded, most recent first, so that the order and
  the arguments of the transport accesses can be stated.
\<close>

datatype call =
    StartI2C int int
  | WriteByteI2C int int
  | EndI2C int bool
  | ReadBytesI2C int int int
  | SetLEDRGB int int int
  | Time
  | Print_Cal int

text \<open>
  The driver object: the adapter, the \<open>cont_conv\<close> attribute and the record of calls.
  The cached \<open>_cap_dac_lsb\<close> is a float used by \<open>cap_dac_lsb\<close> only and is left out.
\<close>

record 'd AD7745 =
  i2cbus :: 'd
  cont_conv :: bool
  calls :: "call list"

datatype error =
    RuntimeError_NG
  | RuntimeError_Unknown
  | IndexError
  | ValueError_DACA int
  | ValueError_DACB int
  | ValueError_filter
  | IOError_excitation
  | IOError_not_ready
  | IOError_cal int int
  | OverflowError

type_synonym ('a, 'd) outcome = "(error + 'a) \<times> 'd AD7745"

definition and_then ::
  "('a, 'd) outcome \<Rightarrow> ('a \<Rightarrow> 'd AD7745 \<Rightarrow> ('b, 'd) outcome) \<Rightarrow> ('b, 'd) outcome" where
  "and_then r f = (case r of (Inl e, s) \<Rightarrow> (Inl e, s) | (Inr a, s) \<Rightarrow> f a s)"

definition and_then_opt ::
  "('a, 'd) outcome option \<Rightarrow> ('a \<Rightarrow> 'd AD7745 \<Rightarrow> ('b, 'd) outcome option)
    \<Rightarrow> ('b, 'd) outcome option" where
  "and_then_opt r f =
     (case r of None \<Rightarrow> None
      | Some (Inl e, s) \<Rightarrow> Some (Inl e, s)
      | Some (Inr a, s) \<Rightarrow> f a s)"

definition do_startI2C :: "'d host \<Rightarrow> int \<Rightarrow> int \<Rightarrow> 'd AD7745 \<Rightarrow> string \<times> 'd AD7745" where
  "do_startI2C H i a s =
     (case startI2C H i a (i2cbus s) of
        (r, d) \<Rightarrow> (r, s\<lparr>i2cbus := d, calls := StartI2C i a # calls s\<rparr>))"

definition do_writeByteI2C :: "'d host \<Rightarrow> int \<Rightarrow> int \<Rightarrow> 'd AD7745 \<Rightarrow> string \<times> 'd AD7745" where
  "do_writeByteI2C H i b s =
     (case writeByteI2C H i b (i2cbus s) of
        (r, d) \<Rightarrow> (r, s\<lparr>i2cbus := d, calls := WriteByteI2C i b # calls s\<rparr>))"

definition do_endI2C :: "'d host \<Rightarrow> int \<Rightarrow> bool \<Rightarrow> 'd AD7745 \<Rightarrow> string \<times> 'd AD7745" where
  "do_endI2C H i rep s =
     (case endI2C H i rep (i2cbus s) of
        (r, d) \<Rightarrow> (r, s\<lparr>i2cbus := d, calls := EndI2C i rep # calls s\<rparr>))"

definition do_readBytesI2C ::
  "'d host \<Rightarrow> int \<Rightarrow> int \<Rightarrow> int \<Rightarrow> 'd AD7745 \<Rightarrow> read_reply \<times> 'd AD7745" where
  "do_readBytesI2C H i a n s =
     (case readBytesI2C H i a n (i2cbus s) of
        (r, d) \<Rightarrow> (r, s\<lparr>i2cbus := d, calls := ReadBytesI2C i a n # calls s\<rparr>))"

definition do_setLEDRGB :: "'d host \<Rightarrow> int \<Rightarrow> int \<Rightarrow> int \<Rightarrow> 'd AD7745 \<Rightarrow> 'd AD7745" where
  "do_setLEDRGB H r g b s =
     s\<lparr>i2cbus := setLEDRGB H r g b (i2cbus s), calls := SetLEDRGB r g b # calls s\<rparr>"

definition do_time :: "'d host \<Rightarrow> 'd AD7745 \<Rightarrow> real \<times> 'd AD7745" where
  "do_time H s =
     (case time H (i2cbus s) of
        (t, d) \<Rightarrow> (t, s\<lparr>i2cbus := d, calls := Time # calls s\<rparr>))"

definition do_print_cal :: "int \<Rightarrow> 'd AD7745 \<Rightarrow> 'd AD7745" where
  "do_print_cal start s = s\<lparr>calls := Print_Cal start # calls s\<rparr>"

section \<open>Byte transport\<close>

definition check_device_success :: "string \<Rightarrow> error + unit" where
  "check_device_success ret_str =
     (if ret_str = ''-OK'' then Inr ()
      else if ret_str = ''-NG'' then Inl RuntimeError_NG
      else Inl RuntimeError_Unknown)"

definition checked :: "string \<times> 'd AD7745 \<Rightarrow> (unit, 'd) outcome" where
  "checked r = (case r of (ret_str, s) \<Rightarrow> (check_device_success ret_str, s))"

definition write_byte :: "'d host \<Rightarrow> int \<Rightarrow> int \<Rightarrow> 'd AD7745 \<Rightarrow> (unit, 'd) outcome" where
  "write_byte H register val s =
     and_then (checked (do_startI2C H I2C_INDEX WRITE_ADDR s)) (\<lambda>_ s1.
     and_then (checked (do_writeByteI2C H I2C_INDEX register s1)) (\<lambda>_ s2.
     and_then (checked (do_writeByteI2C H I2C_INDEX val s2)) (\<lambda>_ s3.
     checked (do_endI2C H 0 False s3))))"

definition read_byte :: "'d host \<Rightarrow> int \<Rightarrow> int \<Rightarrow> 'd AD7745 \<Rightarrow> (int list, 'd) outcome" where
  "read_byte H addr byte_len s =
     and_then (checked (do_startI2C H I2C_INDEX WRITE_ADDR s)) (\<lambda>_ s1.
     and_then (checked (do_writeByteI2C H I2C_INDEX addr s1)) (\<lambda>_ s2.
     and_then (checked (do_endI2C H I2C_INDEX True s2)) (\<lambda>_ s3.
       (case do_readBytesI2C H I2C_INDEX READ_ADDR byte_len s3 of
          (NG, s4) \<Rightarrow> (Inl RuntimeError_NG, s4)
        | (Bytes bs, s4) \<Rightarrow> (Inr bs, s4)))))"

text \<open>Python's \<open>xs[i]\<close> for a literal index \<open>i \<ge> 0\<close>: IndexError past the end.\<close>

definition item :: "int list \<Rightarrow> nat \<Rightarrow> 'd AD7745 \<Rightarrow> (int, 'd) outcome" where
  "item xs i s = (if i < length xs then (Inr (xs ! i), s) else (Inl IndexError, s))"

section \<open>Register getters and setters\<close>

definition status :: "'d host \<Rightarrow> 'd AD7745 \<Rightarrow> (status_reg, 'd) outcome" where
  "status H s =
     and_then (read_byte H STATUS_ADDR 1 s) (\<lambda>bs s1.
     and_then (item bs 0 s1) (\<lambda>read_string s2.
       (Inr (status_decode read_string), s2)))"

definition assemble24 :: "int list \<Rightarrow> 'd AD7745 \<Rightarrow> (int, 'd) outcome" where
  "assemble24 read_data s =
     and_then (item read_data 0 s) (\<lambda>h s1.
     and_then (item read_data 1 s1) (\<lambda>m s2.
     and_then (item read_data 2 s2) (\<lambda>l s3.
       (Inr (push_bit 16 h + push_bit 8 m + l), s3))))"

definition assemble16 :: "int list \<Rightarrow> 'd AD7745 \<Rightarrow> (int, 'd) outcome" where
  "assemble16 reg_val s =
     and_then (item reg_val 0 s) (\<lambda>h s1.
     and_then (item reg_val 1 s1) (\<lambda>l s2.
       (Inr (push_bit 8 h + l), s2)))"

definition cap_data :: "'d host \<Rightarrow> 'd AD7745 \<Rightarrow> (int, 'd) outcome" where
  "cap_data H s = and_then (read_byte H CAP_DATA_H_ADDR 3 s) assemble24"

definition vt_data :: "'d host \<Rightarrow> 'd AD7745 \<Rightarrow> (int, 'd) outcome" where
  "vt_data H s = and_then (read_byte H CAP_DATA_H_ADDR 3 s) assemble24"

definition cap_setup :: "'d host \<Rightarrow> 'd AD7745 \<Rightarrow> (cap_setup_reg, 'd) outcome" where
  "cap_setup H s =
     and_then (read_byte H CAP_SETUP_ADDR 1 s) (\<lambda>bs s1.
     and_then (item bs 0 s1) (\<lambda>read_data s2.
       (Inr (cap_setup_decode read_data), s2)))"

definition cap_setup_set :: "'d host \<Rightarrow> cap_setup_reg \<Rightarrow> 'd AD7745 \<Rightarrow> (unit, 'd) outcome" where
  "cap_setup_set H val s = write_byte H CAP_SETUP_ADDR (cap_setup_encode val) s"

definition vt_setup :: "'d host \<Rightarrow> 'd AD7745 \<Rightarrow> (vt_setup_reg, 'd) outcome" where
  "vt_setup H s =
     and_then (read_byte H VT_SETUP_ADDR 1 s) (\<lambda>bs s1.
     and_then (item bs 0 s1) (\<lambda>read_string s2.
       (Inr (vt_setup_decode read_string), s2)))"

definition vt_setup_set :: "'d host \<Rightarrow> vt_setup_reg \<Rightarrow> 'd AD7745 \<Rightarrow> (unit, 'd) outcome" where
  "vt_setup_set H val s = write_byte H VT_SETUP_ADDR (vt_setup_encode val) s"

definition exc_setup :: "'d host \<Rightarrow> 'd AD7745 \<Rightarrow> (exc_setup_reg, 'd) outcome" where
  "exc_setup H s =
     and_then (read_byte H EXC_SETUP_ADDR 1 s) (\<lambda>bs s1.
     and_then (item bs 0 s1) (\<lambda>read_string s2.
       (Inr (exc_setup_decode read_string), s2)))"

definition exc_setup_set :: "'d host \<Rightarrow> exc_setup_reg \<Rightarrow> 'd AD7745 \<Rightarrow> (unit, 'd) outcome" where
  "exc_setup_set H val s = write_byte H EXC_SETUP_ADDR (exc_setup_encode val) s"

definition configuration :: "'d host \<Rightarrow> 'd AD7745 \<Rightarrow> (configuration_reg, 'd) outcome" where
  "configuration H s =
     and_then (read_byte H CONFIG_ADDR 3 s) (\<lambda>bs s1.
     and_then (item bs 0 s1) (\<lambda>read_string s2.
       (Inr (configuration_decode read_string), s2)))"

definition configuration_set ::
  "'d host \<Rightarrow> configuration_reg \<Rightarrow> 'd AD7745 \<Rightarrow> (unit, 'd) outcome" where
  "configuration_set H val s = write_byte H CONFIG_ADDR (configuration_encode val) s"

definition cap_daca :: "'d host \<Rightarrow> 'd AD7745 \<Rightarrow> (cap_daca_reg, 'd) outcome" where
  "cap_daca H s =
     and_then (read_byte H CAP_DAC_A_ADDR 1 s) (\<lambda>bs s1.
     and_then (item bs 0 s1) (\<lambda>read_string s2.
       (Inr \<lparr> DACAENA = (read_string AND CAP_DAC_A_DACAENA \<noteq> 0),
              DACA7bit = read_string AND CAP_DAC_A_DACA7bit \<rparr>, s2)))"

definition cap_daca_set :: "'d host \<Rightarrow> cap_daca_reg \<Rightarrow> 'd AD7745 \<Rightarrow> (unit, 'd) outcome" where
  "cap_daca_set H val s =
     (if DACA7bit val > 127 \<or> DACA7bit val < 0 then (Inl (ValueError_DACA (DACA7bit val)), s)
      else if DACAENA val then write_byte H CAP_DAC_A_ADDR (128 OR DACA7bit val) s
      else write_byte H CAP_DAC_A_ADDR (DACA7bit val) s)"

definition cap_dacb :: "'d host \<Rightarrow> 'd AD7745 \<Rightarrow> (cap_dacb_reg, 'd) outcome" where
  "cap_dacb H s =
     and_then (read_byte H CAP_DAC_B_ADDR 1 s) (\<lambda>bs s1.
     and_then (item bs 0 s1) (\<lambda>read_string s2.
       (Inr \<lparr> DACBENB = (read_string AND CAP_DAC_B_DACBENB \<noteq> 0),
              DACB7bit = read_string AND CAP_DAC_B_DACB7bit \<rparr>, s2)))"

definition cap_dacb_set :: "'d host \<Rightarrow> cap_dacb_reg \<Rightarrow> 'd AD7745 \<Rightarrow> (unit, 'd) outcome" where
  "cap_dacb_set H val s =
     (if DACB7bit val > 177 \<or> DACB7bit val < 0 then (Inl (ValueError_DACB (DACB7bit val)), s)
      else if DACBENB val then write_byte H CAP_DAC_B_ADDR (128 OR DACB7bit val) s
      else write_byte H CAP_DAC_B_ADDR (DACB7bit val) s)"

definition cap_offset :: "'d host \<Rightarrow> 'd AD7745 \<Rightarrow> (int, 'd) outcome" where
  "cap_offset H s = and_then (read_byte H CAP_OFFSET_H_ADDR 2 s) assemble16"

definition cap_gain :: "'d host \<Rightarrow> 'd AD7745 \<Rightarrow> (int, 'd) outcome" where
  "cap_gain H s = and_then (read_byte H CAP_OFFSET_H_ADDR 2 s) assemble16"

definition volt_gain :: "'d host \<Rightarrow> 'd AD7745 \<Rightarrow> (int, 'd) outcome" where
  "volt_gain H s = and_then (read_byte H VOLT_GRAIN_H_ADDR 2 s) assemble16"

section \<open>Acquisition\<close>

text \<open>
  \<open>get_raw_cap_val\<close>. When \<open>cont_conv\<close> is off, the configuration register is read,
  its three mode fields are set to single conversion, and it is written back. Then the
  clock is read once and the status register is polled in \<open>while True\<close>: the loop has
  no bound of its own, so \<open>poll\<close> is a partial function and \<open>None\<close> stands for a
  call that never returns. The order of the tests in the loop body is the source's: data
  ready first, excitation error second, timeout last.
\<close>

partial_function (option) poll ::
  "'d host \<Rightarrow> real \<Rightarrow> real \<Rightarrow> 'd AD7745 \<Rightarrow> (int, 'd) outcome option" where
  "poll H start_time timeout s =
     (case status H s of
        (Inl e, s1) \<Rightarrow> Some (Inl e, s1)
      | (Inr stat_reg, s1) \<Rightarrow>
          if \<not> RDYCAP stat_reg then Some (cap_data H s1)
          else if EXCERR stat_reg then Some (Inl IOError_excitation, do_setLEDRGB H 255 0 0 s1)
          else (case do_time H s1 of
                  (now, s2) \<Rightarrow>
                    if now - start_time > timeout
                    then Some (Inl IOError_not_ready, do_setLEDRGB H 255 0 0 s2)
                    else poll H start_time timeout s2))"

definition trigger_single_shot :: "'d host \<Rightarrow> 'd AD7745 \<Rightarrow> (unit, 'd) outcome" where
  "trigger_single_shot H s =
     (if \<not> cont_conv s then
        and_then (configuration H s) (\<lambda>conf s1.
          configuration_set H (conf\<lparr>MD0 := False, MD1 := True, MD2 := False\<rparr>) s1)
      else (Inr (), s))"

definition get_raw_cap_val :: "'d host \<Rightarrow> real \<Rightarrow> 'd AD7745 \<Rightarrow> (int, 'd) outcome option" where
  "get_raw_cap_val H timeout s =
     and_then_opt (Some (trigger_single_shot H s)) (\<lambda>_ s1.
       (case do_time H s1 of (start_time, s2) \<Rightarrow> poll H start_time timeout s2))"

section \<open>Filter setting\<close>

text \<open>
  \<open>cap_filter\<close> compares its argument with the eight members of \<open>CapFilter\<close> and
  raises ValueError for anything else; \<open>Not_A_Member\<close> stands for such an argument.
\<close>

datatype filter_arg = Member CapFilter | Not_A_Member

definition set_capfs :: "bool \<Rightarrow> bool \<Rightarrow> bool \<Rightarrow> configuration_reg \<Rightarrow> configuration_reg" where
  "set_capfs f2 f1 f0 conf_val = conf_val\<lparr>CAPFS2 := f2, CAPFS1 := f1, CAPFS0 := f0\<rparr>"

definition cap_filter :: "'d host \<Rightarrow> filter_arg \<Rightarrow> 'd AD7745 \<Rightarrow> (unit, 'd) outcome" where
  "cap_filter H filter_setting s =
     and_then (configuration H s) (\<lambda>conf_val s1.
       (case filter_setting of
          Member CONV87Hz \<Rightarrow> configuration_set H (set_capfs False False False conf_val) s1
        | Member CONV79Hz \<Rightarrow> configuration_set H (set_capfs False False True conf_val) s1
        | Member CONV44Hz \<Rightarrow> configuration_set H (set_capfs False True False conf_val) s1
        | Member CONV22Hz \<Rightarrow> configuration_set H (set_capfs False True True conf_val) s1
        | Member CONV14Hz \<Rightarrow> configuration_set H (set_capfs True False False conf_val) s1
        | Member CONV11Hz \<Rightarrow> configuration_set H (set_capfs True False True conf_val) s1
        | Member CONV9Hz \<Rightarrow> configuration_set H (set_capfs True True False conf_val) s1
        | Member CONV8Hz \<Rightarrow> configuration_set H (set_capfs True True True conf_val) s1
        | Not_A_Member \<Rightarrow> (Inl ValueError_filter, s1)))"

section \<open>Calibration\<close>

text \<open>
  \<open>cal_low_val\<close>. Its first statement, \<open>self.cap_daca_reg(DACAENA=True, DACA7bit=0)\<close>,
  builds a dataclass value and drops it: nothing is assigned to \<open>self.cap_daca\<close>, so no
  setter runs and the model has no step for it. \<open>scan\<close> is the \<open>while start <= 127\<close>
  loop and returns the value of \<open>start\<close> on leaving it. The acquisitions use the
  default timeout of 10 seconds. In the final test, Python's \<open>and\<close> takes the second
  sample only when the first is nonzero, and the error message takes one more sample
  after the LED has been set.
\<close>

function scan :: "'d host \<Rightarrow> int \<Rightarrow> 'd AD7745 \<Rightarrow> (int, 'd) outcome option" where
  "scan H start s =
     (if start \<le> 127 then
        and_then_opt
          (Some (cap_daca_set H \<lparr>DACAENA = True, DACA7bit = start\<rparr> (do_print_cal start s)))
          (\<lambda>_ s1.
        and_then_opt (get_raw_cap_val H 10 s1) (\<lambda>_ s2.
        and_then_opt (get_raw_cap_val H 10 s2) (\<lambda>v s3.
          if v > 0 then scan H (start + 1) s3 else Some (Inr start, s3))))
      else Some (Inr start, s))"
  by pat_completeness auto
termination
  by (relation "measure (\<lambda>(H, start, s). nat (128 - start))") auto

definition cal_failed :: "'d host \<Rightarrow> int \<Rightarrow> 'd AD7745 \<Rightarrow> (int, 'd) outcome option" where
  "cal_failed H start s =
     and_then_opt (get_raw_cap_val H 10 (do_setLEDRGB H 255 0 0 s)) (\<lambda>v s1.
       Some (Inl (IOError_cal start v), s1))"

definition cal_low_val :: "'d host \<Rightarrow> int \<Rightarrow> 'd AD7745 \<Rightarrow> (int, 'd) outcome option" where
  "cal_low_val H st_val s =
     and_then_opt (get_raw_cap_val H 10 s) (\<lambda>_ s1.
     and_then_opt (get_raw_cap_val H 10 s1) (\<lambda>_ s2.
     and_then_opt (scan H st_val s2) (\<lambda>start s3.
     and_then_opt
       (Some (cap_daca_set H \<lparr>DACAENA = True, DACA7bit = start - 1\<rparr> s3)) (\<lambda>_ s4.
     and_then_opt (get_raw_cap_val H 10 s4) (\<lambda>_ s5.
     and_then_opt (get_raw_cap_val H 10 s5) (\<lambda>v1 s6.
       if v1 \<noteq> 0 then
         and_then_opt (get_raw_cap_val H 10 s6) (\<lambda>v2 s7.
           if v2 \<noteq> 0xFFFFFF then Some (Inr start, s7) else cal_failed H start s7)
       else cal_failed H start s6))))))"

section \<open>Unit conversion\<close>

text \<open>
  \<open>cap_val_to_pf\<close> computes \<open>cap_val * (4.096 / 0x800000)\<close> in Python floats, which are
  IEEE 754 binary64 numbers. A float is modelled by the real number it denotes, and every
  operation by the exact result rounded to the nearest number with a 53-bit significand,
  ties to the even significand. The exponent is not bounded in \<open>binary64\<close>: no result
  of this function is subnormal (a nonzero product is at least the scale constant), and
  the product is smaller in magnitude than the converted count, so the only overflow is
  the conversion of a count of 1024 bits or more to a float, which raises OverflowError.
\<close>

definition round_half_even :: "real \<Rightarrow> int" where
  "round_half_even x =
     (let n = \<lfloor>x\<rfloor>; r = x - of_int n
      in if r < 1 / 2 then n else if r > 1 / 2 then n + 1 else if even n then n else n + 1)"

definition exponent :: "real \<Rightarrow> int" where
  "exponent x = \<lfloor>log 2 \<bar>x\<bar>\<rfloor>"

definition binary64 :: "real \<Rightarrow> real" where
  "binary64 x =
     (if x = 0 then 0
      else of_int (round_half_even (x / 2 powi (exponent x - 52))) * 2 powi (exponent x - 52))"

text \<open>The float that the literal \<open>4.096\<close> denotes, and Python's conversion of an int.\<close>

definition literal_4_096 :: real where
  "literal_4_096 = binary64 (4096 / 1000)"

definition float_of_int :: "int \<Rightarrow> error + real" where
  "float_of_int n =
     (if \<bar>binary64 (of_int n)\<bar> < 2 ^ 1024 then Inr (binary64 (of_int n)) else Inl OverflowError)"

definition cap_val_to_pf :: "int \<Rightarrow> error + real" where
  "cap_val_to_pf cap_val =
     (case float_of_int cap_val of
        Inl e \<Rightarrow> Inl e
      | Inr x \<Rightarrow> Inr (binary64 (x * binary64 (literal_4_096 / binary64 (of_int 0x800000)))))"

text \<open>
  The formula of the specification, \<open>pF = raw_count \<times> (4.096 / 0x800000)\<close>: read
  in floats, the product of the count and the float constant rounded once; read in the
  reals, the exact product.
\<close>

definition rounded_product :: "int \<Rightarrow> real" where
  "rounded_product raw = binary64 (of_int raw * (literal_4_096 / 0x800000))"

definition exact_product :: "int \<Rightarrow> real" where
  "exact_product raw = of_int raw * (4096 / 1000 / 0x800000)"

section \<open>A simulated chip\<close>

text \<open>
  A host adapter to run the driver against: every bus command is acknowledged, the chip
  keeps a register file with an address pointer that the first byte of a write transaction
  sets and every further byte advances, and the three capacitance data registers show the
  24-bit sample that \<open>sample\<close> gives for the code held in DAC A (register 11, bits 0 to 6).
  The clock advances by a millisecond per reading.
\<close>

record chip =
  awaiting_pointer :: bool
  pointer :: int
  regs :: "int \<Rightarrow> int"
  seconds :: real

definition chip_reg :: "(int \<Rightarrow> int) \<Rightarrow> chip \<Rightarrow> int \<Rightarrow> int" where
  "chip_reg sample c a =
     (if a = 1 then sample (regs c 11 AND 127) div 65536 mod 256
      else if a = 2 then sample (regs c 11 AND 127) div 256 mod 256
      else if a = 3 then sample (regs c 11 AND 127) mod 256
      else regs c a)"

definition sim_host :: "(int \<Rightarrow> int) \<Rightarrow> chip host" where
  "sim_host sample =
     \<lparr> startI2C = (\<lambda>i a c. (''-OK'', c\<lparr>awaiting_pointer := True\<rparr>)),
       writeByteI2C = (\<lambda>i b c.
         (''-OK'', if awaiting_pointer c then c\<lparr>awaiting_pointer := False, pointer := b\<rparr>
                   else c\<lparr>regs := (regs c)(pointer c := b), pointer := pointer c + 1\<rparr>)),
       endI2C = (\<lambda>i rep c. (''-OK'', c)),
       readBytesI2C = (\<lambda>i a n c.
         (Bytes (map (chip_reg sample c) [pointer c..pointer c + n - 1]),
          c\<lparr>pointer := pointer c + n\<rparr>)),
       setLEDRGB = (\<lambda>r g b c. c),
       time = (\<lambda>c. (seconds c, c\<lparr>seconds := seconds c + 1 / 1000\<rparr>)) \<rparr>"

definition driver0 :: "(int \<Rightarrow> int) \<Rightarrow> bool \<Rightarrow> chip AD7745" where
  "driver0 r cc =
     \<lparr> i2cbus = \<lparr> awaiting_pointer = False, pointer = 0, regs = r, seconds = 0 \<rparr>,
       cont_conv = cc, calls = [] \<rparr>"

definition threshold_sample :: "int \<Rightarrow> int \<Rightarrow> int" where
  "threshold_sample k code = (if code < k then 0x100000 else 0)"

definition in_order :: "'d AD7745 \<Rightarrow> call list" where
  "in_order s = rev (calls s)"

text \<open>
  The register value of the three filter fields that each branch of \<open>cap_filter\<close>
  assigns (\<open>CAPFS2\<close> is bit 5, \<open>CAPFS1\<close> bit 4, \<open>CAPFS0\<close> bit 3).
\<close>

definition filter_bits :: "CapFilter \<Rightarrow> int" where
  "filter_bits f = (case f of CONV87Hz \<Rightarrow> 0 | CONV79Hz \<Rightarrow> 8 | CONV44Hz \<Rightarrow> 16 | CONV22Hz \<Rightarrow> 24
     | CONV14Hz \<Rightarrow> 32 | CONV11Hz \<Rightarrow> 40 | CONV9Hz \<Rightarrow> 48 | CONV8Hz \<Rightarrow> 56)"

text \<open>
  States of the simulated chip used below: a configuration register holding \<open>0xF9\<close>
  before and after it has been read, and DAC A after \<open>{enabled, code 49}\<close> has been
  written and after it has been read back.
\<close>

definition config_chip :: "chip AD7745" where
  "config_chip = driver0 ((\<lambda>_. 0)(10 := 0xF9)) False"

definition config_chip_read :: "chip AD7745" where
  "config_chip_read =
     \<lparr> i2cbus = \<lparr> awaiting_pointer = False, pointer = 13, regs = (\<lambda>_. 0)(10 := 0xF9),
                  seconds = 0 \<rparr>,
       cont_conv = False,
       calls = [ReadBytesI2C 0 0x91 3, EndI2C 0 True, WriteByteI2C 0 10, StartI2C 0 0x90] \<rparr>"

definition dac_written :: "chip AD7745" where
  "dac_written =
     \<lparr> i2cbus = \<lparr> awaiting_pointer = False, pointer = 12, regs = (\<lambda>_. 0)(11 := 177),
                  seconds = 0 \<rparr>,
       cont_conv = True,
       calls = [EndI2C 0 False, WriteByteI2C 0 177, WriteByteI2C 0 11, StartI2C 0 0x90] \<rparr>"

definition dac_read_back :: "chip AD7745" where
  "dac_read_back =
     \<lparr> i2cbus = \<lparr> awaiting_pointer = False, pointer = 12, regs = (\<lambda>_. 0)(11 := 177),
                  seconds = 0 \<rparr>,
       cont_conv = True,
       calls = [ReadBytesI2C 0 0x91 1, EndI2C 0 True, WriteByteI2C 0 11, StartI2C 0 0x90,
                EndI2C 0 False, WriteByteI2C 0 177, WriteByteI2C 0 11, StartI2C 0 0x90] \<rparr>"

text \<open>
  The driver on a chip whose registers are all zero except DAC A, which holds \<open>d\<close>:
  the state in which every step of a calibration run leaves the simulated chip.
\<close>

definition chip_state :: "bool \<Rightarrow> int \<Rightarrow> int \<Rightarrow> real \<Rightarrow> call list \<Rightarrow> chip AD7745" where
  "chip_state a p d t cs =
     \<lparr> i2cbus = \<lparr> awaiting_pointer = a, pointer = p, regs = (\<lambda>_. 0)(11 := d), seconds = t \<rparr>,
       cont_conv = True, calls = cs \<rparr>"

text \<open>
  What a run is observed by: its outcome with the calls in the order they were made, or
  with the byte that the DAC A register of the simulated chip holds at the end.
\<close>

definition outcome_and_calls ::
  "('a, 'd) outcome option \<Rightarrow> ((error + 'a) \<times> call list) option" where
  "outcome_and_calls r = map_option (\<lambda>(x, s). (x, in_order s)) r"

definition outcome_and_daca :: "('a, chip) outcome option \<Rightarrow> ((error + 'a) \<times> int) option" where
  "outcome_and_daca r = map_option (\<lambda>(x, s). (x, regs (i2cbus s) 11)) r"

text \<open>
  The outcome of a calibration run without the code it carries: whether the run returned,
  raised the calibration error (with the raw reading it reports) or raised another error.
\<close>

datatype verdict = Returned | Calibration_error int | Other_error error

definition classify :: "error + 'a \<Rightarrow> verdict" where
  "classify x =
     (case x of
        Inr _ \<Rightarrow> Returned
      | Inl e \<Rightarrow> (case e of IOError_cal start raw \<Rightarrow> Calibration_error raw | _ \<Rightarrow> Other_error e))"

definition verdict_and_daca :: "('a, chip) outcome option \<Rightarrow> (verdict \<times> int) option" where
  "verdict_and_daca r = map_option (\<lambda>(x, s). (classify x, regs (i2cbus s) 11)) r"

section \<open>Evaluation rules\<close>

lemmas register_map =
  I2C_INDEX_def WRITE_ADDR_def READ_ADDR_def STATUS_ADDR_def CAP_DATA_H_ADDR_def
  VT_DATA_H_ADDR_def CAP_SETUP_ADDR_def VT_SETUP_ADDR_def EXC_SETUP_ADDR_def
  CONFIG_ADDR_def CAP_DAC_A_ADDR_def CAP_DAC_B_ADDR_def CAP_OFFSET_H_ADDR_def
  CAP_GRAIN_H_ADDR_def VOLT_GRAIN_H_ADDR_def

lemmas bit_masks =
  STATUS_EXCERR_def STATUS_RDY_def STATUS_RDYVT_def STATUS_RDYCAP_def
  CAP_SETUP_CAPEN_def CAP_SETUP_CIN2_def CAP_SETUP_CAPDIFF_def CAP_SETUP_CAPCHOP_def
  VT_SETUP_VTEN_def VT_SETUP_VTMD1_def VT_SETUP_VTMD0_def VT_SETUP_EXTREF_def
  VT_SETUP_VTSHORT_def VT_SETUP_VTCHOP_def
  EXC_SETUP_CLKCTRL_def EXC_SETUP_EXCON_def EXC_SETUP_EXCB_def EXC_SETUP_UEXCB_def
  EXC_SETUP_EXCA_def EXC_SETUP_UEXCA_def EXC_SETUP_EXCLVL1_def EXC_SETUP_EXCLVL0_def
  CONFIG_VTFS1_def CONFIG_VTFS0_def CONFIG_CAPFS2_def CONFIG_CAPFS1_def CONFIG_CAPFS0_def
  CONFIG_MD2_def CONFIG_MD1_def CONFIG_MD0_def
  CAP_DAC_A_DACAENA_def CAP_DAC_A_DACA7bit_def CAP_DAC_B_DACBENB_def CAP_DAC_B_DACB7bit_def


lemma and_then_cong [cong]: "r = r' \<Longrightarrow> and_then r f = and_then r' f"
  by simp

lemma and_then_opt_cong [cong]: "r = r' \<Longrightarrow> and_then_opt r f = and_then_opt r' f"
  by simp

lemma and_then_Inl [simp]: "and_then (Inl e, s) f = (Inl e, s)"
  by (simp add: and_then_def)

lemma and_then_Inr [simp]: "and_then (Inr a, s) f = f a s"
  by (simp add: and_then_def)

lemma and_then_opt_None [simp]: "and_then_opt None f = None"
  by (simp add: and_then_opt_def)

lemma and_then_opt_Inl [simp]: "and_then_opt (Some (Inl e, s)) f = Some (Inl e, s)"
  by (simp add: and_then_opt_def)

lemma and_then_opt_Inr [simp]: "and_then_opt (Some (Inr a, s)) f = f a s"
  by (simp add: and_then_opt_def)

declare scan.simps [simp del]

lemmas transport_defs =
  write_byte_def read_byte_def checked_def check_device_success_def
  do_startI2C_def do_writeByteI2C_def do_endI2C_def do_readBytesI2C_def do_setLEDRGB_def
  do_time_def do_print_cal_def item_def

lemmas run_defs =
  transport_defs status_def status_decode_def assemble24_def assemble16_def
  cap_data_def cap_daca_set_def get_raw_cap_val_def trigger_single_shot_def poll.simps
  scan.simps cal_low_val_def cal_failed_def sim_host_def chip_reg_def driver0_def threshold_sample_def
  in_order_def register_map bit_masks

section \<open>Round trip of the bitfield registers\<close>

lemma cap_setup_round_trip: "cap_setup_decode (cap_setup_encode S) = S"
  by (cases S) (simp add: cap_setup_decode_def cap_setup_encode_def flag_def bit_masks)

lemma vt_setup_round_trip: "vt_setup_decode (vt_setup_encode S) = S"
  by (cases S) (simp add: vt_setup_decode_def vt_setup_encode_def flag_def bit_masks)

lemma exc_setup_round_trip: "exc_setup_decode (exc_setup_encode S) = S"
  by (cases S) (simp add: exc_setup_decode_def exc_setup_encode_def flag_def bit_masks)

lemma configuration_round_trip: "configuration_decode (configuration_encode S) = S"
  by (cases S) (simp add: configuration_decode_def configuration_encode_def flag_def bit_masks)

text \<open>
  Claim C7. For every value \<open>S\<close> of each of the four bitfield register structures
  (capacitance setup, voltage/temperature setup, excitation setup, mode configuration),
  decoding the byte that the setter computes from \<open>S\<close> gives \<open>S\<close> back, whatever
  the combination of boolean fields.
\<close>

theorem bitfield_registers_round_trip:
  "cap_setup_decode (cap_setup_encode A) = A
   \<and> vt_setup_decode (vt_setup_encode B) = B
   \<and> exc_setup_decode (exc_setup_encode C) = C
   \<and> configuration_decode (configuration_encode D) = D"
  by (simp only: cap_setup_round_trip vt_setup_round_trip exc_setup_round_trip
      configuration_round_trip)

section \<open>Read-modify-write of the configuration register\<close>

lemma mask_test: "(b AND (2 ^ n) \<noteq> 0) = bit (b::int) n"
  by (simp add: bit_iff_and_push_bit_not_eq_0 push_bit_eq_mult)

lemma take_bit_8_bits:
  "take_bit 8 (b::int) =
     of_bool (bit b 7) * 128 + of_bool (bit b 6) * 64 + of_bool (bit b 5) * 32
     + of_bool (bit b 4) * 16 + of_bool (bit b 3) * 8 + of_bool (bit b 2) * 4
     + of_bool (bit b 1) * 2 + of_bool (bit b 0)"
proof -
  have e: "{0..<8::nat} = {0, 1, 2, 3, 4, 5, 6, 7}" by auto
  have "take_bit 8 b = (\<Sum>k = 0..<8. push_bit k (of_bool (bit b k)))"
    by (rule take_bit_sum)
  also have "\<dots> = of_bool (bit b 7) * 128 + of_bool (bit b 6) * 64 + of_bool (bit b 5) * 32
     + of_bool (bit b 4) * 16 + of_bool (bit b 3) * 8 + of_bool (bit b 2) * 4
     + of_bool (bit b 1) * 2 + of_bool (bit b 0)"
    unfolding e by (simp add: push_bit_eq_mult)
  finally show ?thesis .
qed

lemma encode_decode_byte: "configuration_encode (configuration_decode b) = take_bit 8 b"
proof -
  have m: "(b AND 128 \<noteq> 0) = bit b 7" "(b AND 64 \<noteq> 0) = bit b 6" "(b AND 32 \<noteq> 0) = bit b 5"
    "(b AND 16 \<noteq> 0) = bit b 4" "(b AND 8 \<noteq> 0) = bit b 3" "(b AND 4 \<noteq> 0) = bit b 2"
    "(b AND 2 \<noteq> 0) = bit b 1" "(b AND 1 \<noteq> 0) = bit b 0"
    using mask_test [of b 7] mask_test [of b 6] mask_test [of b 5] mask_test [of b 4]
      mask_test [of b 3] mask_test [of b 2] mask_test [of b 1] mask_test [of b 0]
    by simp_all
  show ?thesis
    unfolding configuration_encode_def configuration_decode_def bit_masks take_bit_8_bits
    by (simp add: m flag_def)
qed

lemma and_199: "(b::int) AND 199 =
   of_bool (bit b 7) * 128 + of_bool (bit b 6) * 64 + of_bool (bit b 2) * 4
   + of_bool (bit b 1) * 2 + of_bool (bit b 0)"
proof -
  have "take_bit 8 (b AND 199) = b AND 199"
    by (simp add: take_bit_eq_mask and.assoc mask_eq_exp_minus_1)
  then show ?thesis
    using take_bit_8_bits [of "b AND 199"] by (simp add: bit_and_iff)
qed

lemma and_248: "(b::int) AND 248 =
   of_bool (bit b 7) * 128 + of_bool (bit b 6) * 64 + of_bool (bit b 5) * 32
   + of_bool (bit b 4) * 16 + of_bool (bit b 3) * 8"
proof -
  have "take_bit 8 (b AND 248) = b AND 248"
    by (simp add: take_bit_eq_mask and.assoc mask_eq_exp_minus_1)
  then show ?thesis
    using take_bit_8_bits [of "b AND 248"] by (simp add: bit_and_iff)
qed

lemmas mask_tests =
  mask_test [of _ 7, simplified] mask_test [of _ 6, simplified] mask_test [of _ 5, simplified]
  mask_test [of _ 4, simplified] mask_test [of _ 3, simplified] mask_test [of _ 2, simplified]
  mask_test [of _ 1, simplified] mask_test [of _ 0, simplified]

lemma filter_byte:
  "configuration_encode (set_capfs f2 f1 f0 (configuration_decode b))
     = (b AND 0xC7) OR (flag f2 32 + flag f1 16 + flag f0 8)"
  unfolding configuration_encode_def configuration_decode_def set_capfs_def bit_masks and_199
  by (cases "bit b 7"; cases "bit b 6"; cases "bit b 2"; cases "bit b 1"; cases "bit b 0";
      cases f2; cases f1; cases f0; simp add: mask_tests flag_def)

lemma single_shot_byte:
  "configuration_encode (configuration_decode b\<lparr>MD0 := False, MD1 := True, MD2 := False\<rparr>)
     = (b AND 0xF8) OR 2"
  unfolding configuration_encode_def configuration_decode_def bit_masks and_248
  by (cases "bit b 7"; cases "bit b 6"; cases "bit b 5"; cases "bit b 4"; cases "bit b 3";
      simp add: mask_tests flag_def)

lemma configuration_read:
  "read_byte H CONFIG_ADDR 3 s = (Inr (b # bs), s1)
   \<Longrightarrow> configuration H s = (Inr (configuration_decode b), s1)"
  by (simp add: configuration_def item_def)

lemma filter_bits_clear: "filter_bits f AND 0xC7 = 0"
  by (cases f) (simp_all add: filter_bits_def)

text \<open>
  Claim C9. A read-modify-write of the mode-configuration register changes the targeted
  bits only. If the configuration read returns the byte \<open>b\<close>, then \<open>cap_filter\<close>
  writes back \<open>b\<close> with bits 3 to 5 replaced by the filter setting (the voltage-filter
  bits 6 and 7 and the mode bits 0 to 2 are those of \<open>b\<close>), and, when continuous
  conversion is off, acquisition starts by writing back \<open>b\<close> with bits 0 to 2 replaced
  by the single-conversion mode \<open>010\<close> (both filter fields are those of \<open>b\<close>).
\<close>

theorem mode_configuration_read_modify_write:
  assumes "read_byte H CONFIG_ADDR 3 s = (Inr (b # bs), s1)"
  shows "cap_filter H (Member f) s
           = write_byte H CONFIG_ADDR ((b AND 0xC7) OR filter_bits f) s1
         \<and> filter_bits f AND 0xC7 = 0
         \<and> (\<not> cont_conv s \<longrightarrow>
              get_raw_cap_val H timeout s
                = and_then_opt (Some (write_byte H CONFIG_ADDR ((b AND 0xF8) OR 2) s1))
                    (\<lambda>_ s2. case do_time H s2 of (t0, s3) \<Rightarrow> poll H t0 timeout s3))"
proof (intro conjI impI)
  show "cap_filter H (Member f) s = write_byte H CONFIG_ADDR ((b AND 0xC7) OR filter_bits f) s1"
    by (cases f)
      (simp_all add: cap_filter_def configuration_read [OF assms] configuration_set_def
        filter_byte filter_bits_def flag_def)
  show "filter_bits f AND 0xC7 = 0"
    by (rule filter_bits_clear)
  assume "\<not> cont_conv s"
  then show "get_raw_cap_val H timeout s
      = and_then_opt (Some (write_byte H CONFIG_ADDR ((b AND 0xF8) OR 2) s1))
          (\<lambda>_ s2. case do_time H s2 of (t0, s3) \<Rightarrow> poll H t0 timeout s3)"
    by (simp add: get_raw_cap_val_def trigger_single_shot_def configuration_read [OF assms]
        configuration_set_def single_shot_byte)
qed

lemma config_chip_read_byte:
  "read_byte (sim_host (\<lambda>_. 0)) CONFIG_ADDR 3 config_chip = (Inr [0xF9, 0, 0], config_chip_read)"
  by (simp add: config_chip_def config_chip_read_def run_defs upto.simps)

theorem mode_configuration_read_modify_write_witness:
  "read_byte (sim_host (\<lambda>_. 0)) CONFIG_ADDR 3 config_chip = (Inr [0xF9, 0, 0], config_chip_read)
   \<and> \<not> cont_conv config_chip
   \<and> cap_filter (sim_host (\<lambda>_. 0)) (Member CONV44Hz) config_chip
       = write_byte (sim_host (\<lambda>_. 0)) CONFIG_ADDR 0xD1 config_chip_read
   \<and> get_raw_cap_val (sim_host (\<lambda>_. 0)) 10 config_chip
       = and_then_opt (Some (write_byte (sim_host (\<lambda>_. 0)) CONFIG_ADDR 0xFA config_chip_read))
           (\<lambda>_ s2. case do_time (sim_host (\<lambda>_. 0)) s2 of
                      (t0, s3) \<Rightarrow> poll (sim_host (\<lambda>_. 0)) t0 10 s3)"
  using mode_configuration_read_modify_write
    [OF config_chip_read_byte, of CONV44Hz 10]
  by (simp add: config_chip_read_byte filter_bits_def)
     (simp add: config_chip_def driver0_def)

section \<open>Round trip of the DAC A register\<close>

lemma code_low: "0 \<le> c \<Longrightarrow> c \<le> 127 \<Longrightarrow> (c::int) AND 127 = c"
proof -
  assume "0 \<le> c" "c \<le> 127"
  then have "take_bit 7 c = c" by (simp add: take_bit_int_eq_self)
  then show ?thesis by (simp add: take_bit_eq_mask mask_eq_exp_minus_1)
qed

lemma code_bit7: "0 \<le> c \<Longrightarrow> c \<le> 127 \<Longrightarrow> (c::int) AND 128 = 0"
proof -
  assume c: "0 \<le> c" "c \<le> 127"
  then have "c AND 128 = (c AND 127) AND 128" by (simp add: code_low)
  also have "\<dots> = c AND (127 AND 128)" by (simp only: and.assoc)
  finally show ?thesis by simp
qed

lemma enabled_code: "0 \<le> c \<Longrightarrow> c \<le> 127 \<Longrightarrow> 128 OR (c::int) = 128 + c"
  by (rule disjunctive_add_eq_or [symmetric]) (simp add: and.commute code_bit7)

lemma enabled_code_low: "0 \<le> c \<Longrightarrow> c \<le> 127 \<Longrightarrow> (128 + (c::int)) AND 127 = c"
proof -
  assume c: "0 \<le> c" "c \<le> 127"
  have "(128 + c) AND 127 = take_bit 7 (128 + c)"
    by (simp add: take_bit_eq_mask mask_eq_exp_minus_1)
  also have "\<dots> = (128 + c) mod 128" by (simp add: take_bit_eq_mod)
  also have "\<dots> = c" using c by simp
  finally show ?thesis .
qed

lemma enabled_code_bit7: "0 \<le> c \<Longrightarrow> c \<le> 127 \<Longrightarrow> (128 + (c::int)) AND 128 = 128"
proof -
  assume c: "0 \<le> c" "c \<le> 127"
  have "(128 + c) AND 128 = (128 OR c) AND 128" using c by (simp add: enabled_code)
  also have "\<dots> = (128 AND 128) OR (c AND 128)" by (simp only: bit.conj_disj_distrib2)
  finally show ?thesis using c by (simp add: code_bit7)
qed

text \<open>
  Claim C10. For the DAC A register the setter packs the enable flag into bit 7 and the
  code into bits 0 to 6, and for every flag \<open>e\<close> and every code \<open>c\<close> from 0 to 127
  the getter, reading back the byte that the setter wrote, returns \<open>{e, c}\<close>.
\<close>

theorem cap_daca_round_trip:
  assumes "0 \<le> c" and "c \<le> 127"
  shows "cap_daca_set H \<lparr>DACAENA = e, DACA7bit = c\<rparr> s
           = write_byte H CAP_DAC_A_ADDR (flag e 128 + c) s
         \<and> (flag e 128 + c) AND 128 = flag e 128
         \<and> (flag e 128 + c) AND 127 = c
         \<and> (read_byte H CAP_DAC_A_ADDR 1 s' = (Inr ((flag e 128 + c) # bs), s'')
              \<longrightarrow> cap_daca H s' = (Inr \<lparr>DACAENA = e, DACA7bit = c\<rparr>, s''))"
  using assms
  by (cases e)
    (simp_all add: cap_daca_set_def cap_daca_def item_def flag_def bit_masks
      enabled_code enabled_code_low enabled_code_bit7 code_low code_bit7)

lemma dac_written_eval:
  "cap_daca_set (sim_host (\<lambda>_. 0)) \<lparr>DACAENA = True, DACA7bit = 49\<rparr> (driver0 (\<lambda>_. 0) True)
     = (Inr (), dac_written)"
  by (simp add: run_defs dac_written_def)

lemma dac_read_back_eval:
  "read_byte (sim_host (\<lambda>_. 0)) CAP_DAC_A_ADDR 1 dac_written = (Inr [177], dac_read_back)"
  by (simp add: run_defs dac_written_def dac_read_back_def upto.simps)

theorem cap_daca_round_trip_witness:
  "(0::int) \<le> 49 \<and> (49::int) \<le> 127
   \<and> cap_daca_set (sim_host (\<lambda>_. 0)) \<lparr>DACAENA = True, DACA7bit = 49\<rparr> (driver0 (\<lambda>_. 0) True)
       = (Inr (), dac_written)
   \<and> read_byte (sim_host (\<lambda>_. 0)) CAP_DAC_A_ADDR 1 dac_written = (Inr [177], dac_read_back)
   \<and> cap_daca (sim_host (\<lambda>_. 0)) dac_written
       = (Inr \<lparr>DACAENA = True, DACA7bit = 49\<rparr>, dac_read_back)"
  using cap_daca_round_trip [of 49 "sim_host (\<lambda>_. 0)" True "driver0 (\<lambda>_. 0) True"
      dac_written "[]" dac_read_back]
  by (simp add: flag_def dac_written_eval dac_read_back_eval)

section \<open>Calibration against the simulated chip\<close>

text \<open>
  On the simulated chip with 24-bit samples an acquisition returns the sample of the code
  that DAC A holds, and the scan runs through the codes while the sample is nonzero. The
  results below are for any sample function and any starting code: a scan that meets a
  zero sample, and a scan that does not, with a confirming sample that is in range or
  clipped.
\<close>

lemma bytes24:
  assumes "0 \<le> v" and "v < 16777216"
  shows "push_bit 16 (v div 65536 mod 256) + push_bit 8 (v div 256 mod 256) + v mod 256 = (v::int)"
proof -
  have a: "v div 65536 mod 256 = v div 65536"
  proof -
    have "v div 65536 < 256" using assms by simp
    moreover have "0 \<le> v div 65536" using assms by simp
    ultimately show ?thesis by simp
  qed
  have b: "v mod 65536 = 256 * (v div 256 mod 256) + v mod 256"
    using zmod_zmult2_eq [of 256 v 256] by simp
  have "v = v div 65536 * 65536 + v mod 65536"
    by simp
  then show ?thesis
    by (simp add: a b push_bit_eq_mult)
qed

lemma acquire:
  assumes "0 \<le> f (d AND 127)" and "f (d AND 127) < 16777216"
  shows "get_raw_cap_val (sim_host f) 10 (chip_state a p d t cs)
     = Some (Inr (f (d AND 127)),
         chip_state False 4 d (t + 1 / 1000)
           ([ReadBytesI2C 0 0x91 3, EndI2C 0 True, WriteByteI2C 0 1, StartI2C 0 0x90,
             ReadBytesI2C 0 0x91 1, EndI2C 0 True, WriteByteI2C 0 0, StartI2C 0 0x90, Time] @ cs))"
  by (simp add: run_defs chip_state_def upto.simps bytes24 [OF assms])

lemma dac_write:
  assumes "0 \<le> c" and "c \<le> 127"
  shows "cap_daca_set (sim_host f) \<lparr>DACAENA = True, DACA7bit = c\<rparr> (chip_state a p d t cs)
     = (Inr (), chip_state False 12 (128 + c) t
          ([EndI2C 0 False, WriteByteI2C 0 (128 + c), WriteByteI2C 0 11, StartI2C 0 0x90] @ cs))"
  using assms by (simp add: run_defs chip_state_def enabled_code)

lemma print_cal: "do_print_cal c (chip_state a p d t cs) = chip_state a p d t (Print_Cal c # cs)"
  by (simp add: do_print_cal_def chip_state_def)

lemma scan_step:
  assumes lo: "\<And>c. 0 \<le> f c" and hi: "\<And>c. f c < 16777216"
    and st: "0 \<le> st" "st \<le> 127"
  shows "\<exists>t' cs'. scan (sim_host f) st (chip_state a p d t cs)
           = (if f st > 0 then scan (sim_host f) (st + 1) (chip_state False 4 (128 + st) t' cs')
              else Some (Inr st, chip_state False 4 (128 + st) t' cs'))"
  by (subst scan.simps)
    (simp add: st print_cal dac_write acquire lo hi enabled_code_low del: append.simps; blast)

lemma scan_finds_zero:
  assumes lo: "\<And>c. 0 \<le> f c" and hi: "\<And>c. f c < 16777216"
    and nz: "\<And>c. st \<le> c \<Longrightarrow> c < k \<Longrightarrow> f c \<noteq> 0" and z: "f k = 0"
    and st: "0 \<le> st" "st \<le> k" and k: "k \<le> 127"
  shows "\<exists>t' cs'. scan (sim_host f) st (chip_state a p d t cs)
           = Some (Inr k, chip_state False 4 (128 + k) t' cs')"
  using nz st
proof (induction "nat (k - st)" arbitrary: st a p d t cs)
  case 0
  then have "st = k" by simp
  with scan_step [where f=f and st=k and a=a and p=p and d=d and t=t and cs=cs, OF lo hi] z k \<open>0 \<le> st\<close> show ?case by simp
next
  case (Suc n)
  then have lt: "st < k" by simp
  with Suc.prems have "f st \<noteq> 0" by simp
  with lo [of st] have pos: "f st > 0" by simp
  from scan_step [where f=f and st=st and a=a and p=p and d=d and t=t and cs=cs, OF lo hi] Suc.prems lt k pos
  obtain t1 cs1 where
    s: "scan (sim_host f) st (chip_state a p d t cs)
          = scan (sim_host f) (st + 1) (chip_state False 4 (128 + st) t1 cs1)"
    by auto
  have "\<exists>t' cs'. scan (sim_host f) (st + 1) (chip_state False 4 (128 + st) t1 cs1)
          = Some (Inr k, chip_state False 4 (128 + k) t' cs')"
  proof (rule Suc.hyps(1))
    show "n = nat (k - (st + 1))" using Suc.hyps(2) by simp
    show "\<And>c. st + 1 \<le> c \<Longrightarrow> c < k \<Longrightarrow> f c \<noteq> 0" using Suc.prems(1) by simp
    show "0 \<le> st + 1" using Suc.prems by simp
    show "st + 1 \<le> k" using lt by simp
  qed
  with s show ?case by simp
qed

lemma scan_exhausts:
  assumes lo: "\<And>c. 0 \<le> f c" and hi: "\<And>c. f c < 16777216"
    and nz: "\<And>c. st \<le> c \<Longrightarrow> c \<le> 127 \<Longrightarrow> f c \<noteq> 0"
    and st: "0 \<le> st" "st \<le> 127"
  shows "\<exists>t' cs'. scan (sim_host f) st (chip_state a p d t cs)
           = Some (Inr 128, chip_state False 4 255 t' cs')"
  using nz st
proof (induction "nat (127 - st)" arbitrary: st a p d t cs)
  case 0
  then have e: "st = 127" by simp
  with 0 have "f 127 \<noteq> 0" by simp
  with lo [of 127] have pos: "f 127 > 0" by simp
  from scan_step [where f=f and st=127 and a=a and p=p and d=d and t=t and cs=cs, OF lo hi] pos
  obtain t1 cs1 where
    "scan (sim_host f) 127 (chip_state a p d t cs)
       = scan (sim_host f) 128 (chip_state False 4 255 t1 cs1)"
    by auto
  then show ?case unfolding e by (subst (asm) (2) scan.simps) auto
next
  case (Suc n)
  then have lt: "st < 127" by simp
  with Suc.prems have "f st \<noteq> 0" by simp
  with lo [of st] have pos: "f st > 0" by simp
  from scan_step [where f=f and st=st and a=a and p=p and d=d and t=t and cs=cs, OF lo hi] Suc.prems lt pos
  obtain t1 cs1 where
    s: "scan (sim_host f) st (chip_state a p d t cs)
          = scan (sim_host f) (st + 1) (chip_state False 4 (128 + st) t1 cs1)"
    by auto
  have "\<exists>t' cs'. scan (sim_host f) (st + 1) (chip_state False 4 (128 + st) t1 cs1)
          = Some (Inr 128, chip_state False 4 255 t' cs')"
  proof (rule Suc.hyps(1))
    show "n = nat (127 - (st + 1))" using Suc.hyps(2) by simp
    show "\<And>c. st + 1 \<le> c \<Longrightarrow> c \<le> 127 \<Longrightarrow> f c \<noteq> 0" using Suc.prems(1) by simp
    show "0 \<le> st + 1" using Suc.prems by simp
    show "st + 1 \<le> 127" using lt by simp
  qed
  with s show ?case by simp
qed

lemma driver0_chip_state: "driver0 (\<lambda>_. 0) True = chip_state False 0 0 0 []"
  by (simp add: driver0_def chip_state_def fun_eq_iff)

lemma daca_of_chip_state: "regs (i2cbus (chip_state a p d t cs)) 11 = d"
  by (simp add: chip_state_def)

lemma acquire_ex:
  assumes lo: "\<And>c. 0 \<le> f c" and hi: "\<And>c. f c < 16777216"
  shows "\<exists>t' cs'. get_raw_cap_val (sim_host f) 10 (chip_state a p d t cs)
           = Some (Inr (f (d AND 127)), chip_state False 4 d t' cs')"
  by (intro exI) (rule acquire [OF lo hi])

lemma confirm:
  assumes lo: "\<And>c. 0 \<le> f c" and hi: "\<And>c. f c < 16777216"
    and c: "0 \<le> c" "c \<le> 127" and nz: "f c \<noteq> 0" and top: "f c \<noteq> 0xFFFFFF"
  shows "outcome_and_daca
           (and_then_opt
              (Some (cap_daca_set (sim_host f) \<lparr>DACAENA = True, DACA7bit = c\<rparr>
                       (chip_state a p d t cs))) (\<lambda>_ s4.
            and_then_opt (get_raw_cap_val (sim_host f) 10 s4) (\<lambda>_ s5.
            and_then_opt (get_raw_cap_val (sim_host f) 10 s5) (\<lambda>v1 s6.
              if v1 \<noteq> 0 then
                and_then_opt (get_raw_cap_val (sim_host f) 10 s6) (\<lambda>v2 s7.
                  if v2 \<noteq> 0xFFFFFF then Some (Inr start, s7)
                  else cal_failed (sim_host f) start s7)
              else cal_failed (sim_host f) start s6))))
         = Some (Inr start, 128 + c)"
  by (simp add: dac_write c acquire lo hi enabled_code_low nz top outcome_and_daca_def
      daca_of_chip_state del: append.simps)

lemma cal_low_val_finds_zero:
  assumes lo: "\<And>c. 0 \<le> f c" and hi: "\<And>c. f c < 16777216"
    and nz: "\<And>c. st \<le> c \<Longrightarrow> c < k \<Longrightarrow> f c \<noteq> 0" and z: "f k = 0"
    and st: "0 \<le> st" "st < k" and k: "k \<le> 127"
    and top: "f (k - 1) \<noteq> 0xFFFFFF"
  shows "outcome_and_daca (cal_low_val (sim_host f) st (driver0 (\<lambda>_. 0) True))
           = Some (Inr k, 128 + (k - 1))"
proof -
  from st have le: "st \<le> k" by simp
  obtain t1 cs1 where g1: "get_raw_cap_val (sim_host f) 10 (chip_state False 0 0 0 [])
      = Some (Inr (f (0 AND 127)), chip_state False 4 0 t1 cs1)"
    using acquire_ex [where f=f, OF lo hi] by blast
  obtain t2 cs2 where g2: "get_raw_cap_val (sim_host f) 10 (chip_state False 4 0 t1 cs1)
      = Some (Inr (f (0 AND 127)), chip_state False 4 0 t2 cs2)"
    using acquire_ex [where f=f, OF lo hi] by blast
  obtain t3 cs3 where s: "scan (sim_host f) st (chip_state False 4 0 t2 cs2)
      = Some (Inr k, chip_state False 4 (128 + k) t3 cs3)"
    using scan_finds_zero [where f=f and st=st and k=k, OF lo hi nz z st(1) le k] by blast
  have km: "0 \<le> k - 1" "k - 1 \<le> 127" using st k by simp_all
  have nk: "f (k - 1) \<noteq> 0" using nz [of "k - 1"] st by simp
  show ?thesis
    unfolding cal_low_val_def driver0_chip_state
    by (simp only: g1 g2 s and_then_opt_Inr confirm [where f=f and c="k - 1", OF lo hi km nk top])
qed

lemma cal_low_val_without_zero:
  assumes lo: "\<And>c. 0 \<le> f c" and hi: "\<And>c. f c < 16777216"
    and nz: "\<And>c. st \<le> c \<Longrightarrow> c \<le> 127 \<Longrightarrow> f c \<noteq> 0"
    and st: "0 \<le> st" "st \<le> 127"
    and top: "f 127 \<noteq> 0xFFFFFF"
  shows "outcome_and_daca (cal_low_val (sim_host f) st (driver0 (\<lambda>_. 0) True))
           = Some (Inr 128, 255)"
proof -
  obtain t1 cs1 where g1: "get_raw_cap_val (sim_host f) 10 (chip_state False 0 0 0 [])
      = Some (Inr (f (0 AND 127)), chip_state False 4 0 t1 cs1)"
    using acquire_ex [where f=f, OF lo hi] by blast
  obtain t2 cs2 where g2: "get_raw_cap_val (sim_host f) 10 (chip_state False 4 0 t1 cs1)
      = Some (Inr (f (0 AND 127)), chip_state False 4 0 t2 cs2)"
    using acquire_ex [where f=f, OF lo hi] by blast
  obtain t3 cs3 where s: "scan (sim_host f) st (chip_state False 4 0 t2 cs2)
      = Some (Inr 128, chip_state False 4 255 t3 cs3)"
    using scan_exhausts [where f=f and st=st, OF lo hi nz st] by blast
  have nk: "f 127 \<noteq> 0" using nz [of 127] st by simp
  have "outcome_and_daca (cal_low_val (sim_host f) st (driver0 (\<lambda>_. 0) True))
          = Some (Inr 128, 128 + 127)"
    unfolding cal_low_val_def driver0_chip_state
    using confirm [where f=f and c=127 and start=128, OF lo hi _ _ nk top]
    by (simp only: g1 g2 s and_then_opt_Inr) simp
  then show ?thesis by simp
qed

lemma led:
  "do_setLEDRGB (sim_host f) r g b (chip_state a p d t cs)
     = chip_state a p d t (SetLEDRGB r g b # cs)"
  by (simp add: do_setLEDRGB_def chip_state_def sim_host_def)

lemma confirm_clipped:
  assumes lo: "\<And>c. 0 \<le> f c" and hi: "\<And>c. f c < 16777216"
    and c: "0 \<le> c" "c \<le> 127" and top: "f c = 0xFFFFFF"
  shows "outcome_and_daca
           (and_then_opt
              (Some (cap_daca_set (sim_host f) \<lparr>DACAENA = True, DACA7bit = c\<rparr>
                       (chip_state a p d t cs))) (\<lambda>_ s4.
            and_then_opt (get_raw_cap_val (sim_host f) 10 s4) (\<lambda>_ s5.
            and_then_opt (get_raw_cap_val (sim_host f) 10 s5) (\<lambda>v1 s6.
              if v1 \<noteq> 0 then
                and_then_opt (get_raw_cap_val (sim_host f) 10 s6) (\<lambda>v2 s7.
                  if v2 \<noteq> 0xFFFFFF then Some (Inr start, s7)
                  else cal_failed (sim_host f) start s7)
              else cal_failed (sim_host f) start s6))))
         = Some (Inl (IOError_cal start 0xFFFFFF), 128 + c)"
  by (simp add: dac_write c acquire lo hi enabled_code_low top outcome_and_daca_def
      daca_of_chip_state cal_failed_def led del: append.simps)

lemma cal_low_val_clipped:
  assumes lo: "\<And>c. 0 \<le> f c" and hi: "\<And>c. f c < 16777216"
    and nz: "\<And>c. st \<le> c \<Longrightarrow> c \<le> 127 \<Longrightarrow> f c \<noteq> 0"
    and st: "0 \<le> st" "st \<le> 127"
    and top: "f 127 = 0xFFFFFF"
  shows "outcome_and_daca (cal_low_val (sim_host f) st (driver0 (\<lambda>_. 0) True))
           = Some (Inl (IOError_cal 128 0xFFFFFF), 255)"
proof -
  obtain t1 cs1 where g1: "get_raw_cap_val (sim_host f) 10 (chip_state False 0 0 0 [])
      = Some (Inr (f (0 AND 127)), chip_state False 4 0 t1 cs1)"
    using acquire_ex [where f=f, OF lo hi] by blast
  obtain t2 cs2 where g2: "get_raw_cap_val (sim_host f) 10 (chip_state False 4 0 t1 cs1)
      = Some (Inr (f (0 AND 127)), chip_state False 4 0 t2 cs2)"
    using acquire_ex [where f=f, OF lo hi] by blast
  obtain t3 cs3 where s: "scan (sim_host f) st (chip_state False 4 0 t2 cs2)
      = Some (Inr 128, chip_state False 4 255 t3 cs3)"
    using scan_exhausts [where f=f and st=st, OF lo hi nz st] by blast
  have "outcome_and_daca (cal_low_val (sim_host f) st (driver0 (\<lambda>_. 0) True))
          = Some (Inl (IOError_cal 128 0xFFFFFF), 128 + 127)"
    unfolding cal_low_val_def driver0_chip_state
    using confirm_clipped [where f=f and c=127 and start=128, OF lo hi _ _ top]
    by (simp only: g1 g2 s and_then_opt_Inr) simp
  then show ?thesis by simp
qed

lemma verdict_of_outcome:
  "verdict_and_daca r = map_option (\<lambda>(x, d). (classify x, d)) (outcome_and_daca r)"
  by (cases r) (auto simp add: verdict_and_daca_def outcome_and_daca_def)

section \<open>What the getters, the setters and the polling loop do\<close>

lemma vt_data_is_cap_data: "vt_data H s = cap_data H s"
  by (simp add: vt_data_def cap_data_def)

lemma cap_gain_is_cap_offset: "cap_gain H s = cap_offset H s"
  by (simp add: cap_gain_def cap_offset_def)

lemma cap_daca_set_rejects:
  "c < 0 \<or> 127 < c
   \<Longrightarrow> cap_daca_set H \<lparr>DACAENA = e, DACA7bit = c\<rparr> s = (Inl (ValueError_DACA c), s)"
  by (auto simp add: cap_daca_set_def)

lemma cap_dacb_set_rejects:
  "c < 0 \<or> 177 < c
   \<Longrightarrow> cap_dacb_set H \<lparr>DACBENB = e, DACB7bit = c\<rparr> s = (Inl (ValueError_DACB c), s)"
  by (auto simp add: cap_dacb_set_def)

lemma cap_dacb_set_accepts:
  "0 \<le> c \<Longrightarrow> c \<le> 177
   \<Longrightarrow> cap_dacb_set H \<lparr>DACBENB = e, DACB7bit = c\<rparr> s
         = write_byte H CAP_DAC_B_ADDR (if e then 128 OR c else c) s"
  by (simp add: cap_dacb_set_def)

lemma poll_data_ready:
  "status H s = (Inr stat_reg, s1) \<Longrightarrow> \<not> RDYCAP stat_reg
   \<Longrightarrow> poll H start_time timeout s = Some (cap_data H s1)"
  by (subst poll.simps) simp

lemma poll_excitation_fault:
  "status H s = (Inr stat_reg, s1) \<Longrightarrow> RDYCAP stat_reg \<Longrightarrow> EXCERR stat_reg
   \<Longrightarrow> poll H start_time timeout s
         = Some (Inl IOError_excitation, do_setLEDRGB H 255 0 0 s1)"
  by (subst poll.simps) simp

section \<open>Raw count to picofarads\<close>

lemma powr_powi: "(2::real) powr (of_int k) = 2 powi k"
  by (simp add: powr_real_of_int')

lemma powr_powi_Suc: "(2::real) powr (of_int k + 1) = 2 powi (k + 1)"
  using powr_powi [of "k + 1"] by simp

lemma exponent_eq:
  assumes "0 < x" and "2 powi e \<le> x" and "x < 2 powi (e + 1)"
  shows "exponent x = e"
proof -
  have "\<lfloor>log 2 x\<rfloor> = e"
    using assms floor_log_eq_powr_iff [of x 2 e] by (simp add: powr_powi powr_powi_Suc)
  then show ?thesis using assms(1) by (simp add: exponent_def)
qed

lemma exponent_bounds:
  assumes "0 < x"
  shows "2 powi (exponent x) \<le> x \<and> x < 2 powi (exponent x + 1)"
  using assms floor_log_eq_powr_iff [of x 2 "exponent x"]
  by (simp add: exponent_def powr_powi powr_powi_Suc)

lemma round_half_even_int [simp]: "round_half_even (of_int n) = n"
  by (simp add: round_half_even_def)

lemma round_half_even_bounds: "\<lfloor>x\<rfloor> \<le> round_half_even x \<and> round_half_even x \<le> \<lfloor>x\<rfloor> + 1"
  by (simp add: round_half_even_def Let_def)

lemma round_half_even_mono:
  assumes "x \<le> y"
  shows "round_half_even x \<le> round_half_even y"
proof (cases "\<lfloor>x\<rfloor> = \<lfloor>y\<rfloor>")
  case True
  then show ?thesis using assms by (auto simp add: round_half_even_def Let_def)
next
  case False
  with assms have "\<lfloor>x\<rfloor> < \<lfloor>y\<rfloor>" using floor_mono [OF assms] by simp
  then show ?thesis
    using round_half_even_bounds [of x] round_half_even_bounds [of y] by linarith
qed

lemma binary64_exact:
  assumes m: "2 ^ 52 \<le> m" "m < 2 ^ 53"
  shows "binary64 (of_int m * 2 powi u) = of_int m * 2 powi u"
proof -
  let ?x = "of_int m * (2::real) powi u"
  have pos: "0 < ?x" using m by simp
  have lo: "2 powi (u + 52) \<le> ?x"
  proof -
    have "(2::real) powi (u + 52) = 2 ^ 52 * 2 powi u" by (simp add: power_int_add)
    also have "\<dots> \<le> of_int m * 2 powi u"
      using m(1) by (intro mult_right_mono) (simp_all add: of_int_le_numeral_power_cancel_iff [symmetric] del: of_int_le_numeral_power_cancel_iff)
    finally show ?thesis .
  qed
  have hi: "?x < 2 powi (u + 52 + 1)"
  proof -
    have "of_int m * (2::real) powi u < 2 ^ 53 * 2 powi u"
      using m(2) by (intro mult_strict_right_mono) simp_all
    also have "\<dots> = 2 powi (u + 52 + 1)" by (simp add: power_int_add)
    finally show ?thesis .
  qed
  have e: "exponent ?x = u + 52" by (rule exponent_eq [OF pos lo hi])
  show ?thesis using pos by (simp add: binary64_def e)
qed

lemma exponent_double:
  assumes "x \<noteq> 0"
  shows "exponent (2 * x) = exponent x + 1"
proof -
  have "log 2 (2 * \<bar>x\<bar>) = 1 + log 2 \<bar>x\<bar>"
    using assms by (simp add: log_mult)
  then show ?thesis by (simp add: exponent_def abs_mult)
qed

lemma binary64_double: "binary64 (2 * x) = 2 * binary64 x"
proof (cases "x = 0")
  case True
  then show ?thesis by (simp add: binary64_def)
next
  case False
  have "(2::real) powi (exponent x + 1 - 52) = 2 * 2 powi (exponent x - 52)"
    using power_int_add [of "2::real" "exponent x - 52" 1] by (simp add: algebra_simps)
  then show ?thesis using False by (simp add: binary64_def exponent_double)
qed

lemma binary64_range:
  assumes "0 < x"
  shows "2 powi (exponent x) \<le> binary64 x \<and> binary64 x \<le> 2 powi (exponent x + 1)"
proof -
  let ?u = "exponent x - 52"
  let ?s = "x / 2 powi ?u"
  have up: "0 < (2::real) powi ?u" by simp
  have a: "(2::real) powi (exponent x) = 2 ^ 52 * 2 powi ?u"
    using power_int_add [of "2::real" ?u 52] by (simp add: algebra_simps)
  have b: "(2::real) powi (exponent x + 1) = 2 ^ 53 * 2 powi ?u"
    using power_int_add [of "2::real" ?u 53] by (simp add: algebra_simps)
  have "of_int (2 ^ 52) \<le> ?s"
    using exponent_bounds [OF assms] by (simp add: a pos_le_divide_eq)
  then have lo: "2 ^ 52 \<le> round_half_even ?s"
    using round_half_even_mono [of "of_int (2 ^ 52)" ?s] by (simp del: of_int_power of_int_numeral)
  have "?s \<le> of_int (2 ^ 53)"
    using exponent_bounds [OF assms] by (simp add: b pos_divide_le_eq)
  then have hi: "round_half_even ?s \<le> 2 ^ 53"
    using round_half_even_mono [of ?s "of_int (2 ^ 53)"] by (simp del: of_int_power of_int_numeral)
  have "(2::real) ^ 52 * 2 powi ?u \<le> of_int (round_half_even ?s) * 2 powi ?u"
    using lo by (intro mult_right_mono) (simp_all add: of_int_le_numeral_power_cancel_iff [symmetric] del: of_int_le_numeral_power_cancel_iff)
  moreover have "of_int (round_half_even ?s) * 2 powi ?u \<le> (2::real) ^ 53 * 2 powi ?u"
    using hi by (intro mult_right_mono) (simp_all add: of_int_le_numeral_power_cancel_iff [symmetric] del: of_int_le_numeral_power_cancel_iff)
  ultimately show ?thesis using assms by (simp add: binary64_def a b)
qed

lemma exponent_mono:
  assumes "0 < x" and "x \<le> y"
  shows "exponent x \<le> exponent y"
  using assms by (simp add: exponent_def floor_mono)

lemma binary64_mono:
  assumes "0 \<le> x" and "x \<le> y"
  shows "binary64 x \<le> binary64 y"
proof (cases "x = 0")
  case x0: True
  show ?thesis
  proof (cases "y = 0")
    case True
    with x0 show ?thesis by simp
  next
    case False
    with assms have "0 < y" by simp
    then have "0 < binary64 y"
      using binary64_range [of y] zero_less_power_int [of "2::real" "exponent y"] by linarith
    with x0 show ?thesis by (simp add: binary64_def)
  qed
next
  case False
  with assms have x: "0 < x" and y: "0 < y" by simp_all
  show ?thesis
  proof (cases "exponent x = exponent y")
    case True
    let ?u = "exponent y - 52"
    have "x / 2 powi ?u \<le> y / 2 powi ?u"
      using assms(2) by (simp add: divide_right_mono)
    then have "round_half_even (x / 2 powi ?u) \<le> round_half_even (y / 2 powi ?u)"
      by (rule round_half_even_mono)
    then have "of_int (round_half_even (x / 2 powi ?u)) * 2 powi ?u
        \<le> of_int (round_half_even (y / 2 powi ?u)) * (2::real) powi ?u"
      by (intro mult_right_mono) simp_all
    then show ?thesis using x y by (simp add: binary64_def True)
  next
    case False
    with exponent_mono [OF x assms(2)] have "exponent x + 1 \<le> exponent y" by simp
    then have "(2::real) powi (exponent x + 1) \<le> 2 powi (exponent y)"
      by (intro power_int_increasing) simp_all
    then show ?thesis
      using binary64_range [OF x] binary64_range [OF y] by linarith
  qed
qed

lemma binary64_int:
  assumes "0 \<le> n" and "n < 2 ^ 53"
  shows "binary64 (of_int n) = of_int n"
proof (cases "n = 0")
  case True
  then show ?thesis by (simp add: binary64_def)
next
  case False
  let ?x = "of_int n :: real"
  from False assms have pos: "0 < ?x" by simp
  have "exponent ?x \<le> 52"
  proof (rule ccontr)
    assume "\<not> exponent ?x \<le> 52"
    then have "(2::real) powi 53 \<le> 2 powi (exponent ?x)"
      by (intro power_int_increasing) simp_all
    moreover have "?x < 2 ^ 53" using assms(2) by (simp add: of_int_less_numeral_power_cancel_iff)
    ultimately show False using exponent_bounds [OF pos] by simp
  qed
  then obtain k where k: "exponent ?x - 52 = - int k"
    by (metis add.inverse_inverse diff_le_0_iff_le nonneg_int_cases neg_le_0_iff_le)
  have p: "(2::real) powi (exponent ?x - 52) = inverse (2 ^ k)"
    by (simp add: k power_int_minus)
  have "?x / inverse (2 ^ k) = of_int (n * 2 ^ k)" by (simp add: field_simps)
  then have "round_half_even (?x / inverse (2 ^ k)) = n * 2 ^ k"
    by (simp only: round_half_even_int)
  then show ?thesis using pos by (simp add: binary64_def p)
qed

lemma binary64_error:
  assumes "x \<noteq> 0"
  shows "\<bar>binary64 x - x\<bar> \<le> 2 powi (exponent x - 52) / 2"
proof -
  let ?u = "exponent x - 52"
  let ?s = "x / 2 powi ?u"
  have r: "\<bar>of_int (round_half_even ?s) - ?s\<bar> \<le> 1 / 2"
    by (simp add: round_half_even_def Let_def)
  have "binary64 x - x = (of_int (round_half_even ?s) - ?s) * 2 powi ?u"
    using assms by (simp add: binary64_def algebra_simps)
  then have "\<bar>binary64 x - x\<bar> = \<bar>of_int (round_half_even ?s) - ?s\<bar> * 2 powi ?u"
    by (simp add: abs_mult)
  also have "\<dots> \<le> 1 / 2 * 2 powi ?u"
    using r by (intro mult_right_mono) simp_all
  finally show ?thesis by simp
qed

lemma double_4_096: "binary64 (4096 / 1000) = 4611686018427388 / 2 ^ 50"
proof -
  have e: "exponent (4096 / 1000) = 2"
    by (rule exponent_eq) simp_all
  have r: "round_half_even (4096 / 1000 / 2 powi (2 - 52)) = 4611686018427388"
    by (simp add: round_half_even_def Let_def)
  have "binary64 (4096 / 1000) = of_int 4611686018427388 * 2 powi (2 - 52)"
    by (simp only: binary64_def e r) simp
  then show ?thesis by simp
qed

lemma literal_value: "literal_4_096 = 4611686018427388 / 2 ^ 50"
  unfolding literal_4_096_def by (rule double_4_096)

lemma scale_constant:
  "binary64 (literal_4_096 / binary64 (of_int 0x800000)) = literal_4_096 / 0x800000"
proof -
  have d: "binary64 (of_int 0x800000) = of_int 0x800000"
    by (rule binary64_int) simp_all
  have "binary64 (of_int 4611686018427388 * 2 powi (- 73)) = of_int 4611686018427388 * 2 powi (- 73)"
    by (rule binary64_exact) simp_all
  then show ?thesis using d by (simp add: literal_value)
qed

lemma float_of_int_exact:
  assumes "0 \<le> n" and "n < 2 ^ 24"
  shows "float_of_int n = Inr (of_int n)"
proof -
  have "n < 2 ^ 53" using assms(2) by simp
  with assms(1) have b: "binary64 (of_int n) = of_int n" by (rule binary64_int)
  have "real_of_int n < 2 ^ 24" using assms(2) by simp
  also have "\<dots> < (2::real) ^ 1024" by (rule power_strict_increasing) simp_all
  finally show ?thesis using assms(1) by (simp add: float_of_int_def b)
qed

lemma cap_val_to_pf_rounded_product:
  assumes "0 \<le> n" and "n < 2 ^ 24"
  shows "cap_val_to_pf n = Inr (rounded_product n)"
  by (simp only: cap_val_to_pf_def float_of_int_exact [OF assms] scale_constant
      rounded_product_def sum.case)

lemma small_error:
  assumes "0 \<le> x" and "x < 16"
  shows "\<bar>binary64 x - x\<bar> \<le> 1 / 2 ^ 50"
proof (cases "x = 0")
  case True
  then show ?thesis by (simp add: binary64_def)
next
  case False
  with assms have pos: "0 < x" by simp
  have "exponent x \<le> 3"
  proof (rule ccontr)
    assume "\<not> exponent x \<le> 3"
    then have "(2::real) powi 4 \<le> 2 powi (exponent x)"
      by (intro power_int_increasing) simp_all
    then show False using exponent_bounds [OF pos] assms(2) by simp
  qed
  then have "(2::real) powi (exponent x - 52) \<le> 2 powi (- 49)"
    by (intro power_int_increasing) simp_all
  then show ?thesis using binary64_error [OF False] by simp
qed

lemma product_bound:
  assumes "0 \<le> n" and "n < 2 ^ 24"
  shows "0 \<le> of_int n * (literal_4_096 / 0x800000)
         \<and> of_int n * (literal_4_096 / 0x800000) < 16"
proof -
  have "real_of_int n < 2 ^ 24" using assms(2) by simp
  then show ?thesis using assms(1) by (simp add: literal_value)
qed

lemma rounded_product_error:
  assumes "0 \<le> n" and "n < 2 ^ 24"
  shows "\<bar>rounded_product n - of_int n * (literal_4_096 / 0x800000)\<bar> \<le> 1 / 2 ^ 50"
  unfolding rounded_product_def
  using product_bound [OF assms] by (intro small_error) simp_all

lemma half_ulps: "(1::real) / 2 ^ 50 + 1 / 2 ^ 50 = 1 / 2 ^ 49"
  by simp

lemma rounded_product_accuracy:
  assumes "0 \<le> n" and "n < 2 ^ 24"
  shows "\<bar>rounded_product n - exact_product n\<bar> \<le> 1 / 2 ^ 49"
proof -
  have n: "0 \<le> real_of_int n" "real_of_int n < 2 ^ 24" using assms by simp_all
  have d: "of_int n * (literal_4_096 / 0x800000) - exact_product n
          = of_int n * (96 / 1000 / 2 ^ 73)"
    by (simp add: exact_product_def literal_value field_simps)
  have "0 \<le> real_of_int n * (96 / 1000 / 2 ^ 73)" using n by simp
  moreover have "real_of_int n * (96 / 1000 / 2 ^ 73) \<le> 1 / 2 ^ 50"
    using n by simp
  ultimately have e: "\<bar>of_int n * (literal_4_096 / 0x800000) - exact_product n\<bar> \<le> 1 / 2 ^ 50"
    by (simp only: d)
  define p where "p = of_int n * (literal_4_096 / 0x800000)"
  define q where "q = exact_product n"
  define r where "r = rounded_product n"
  define h :: real where "h = 1 / 2 ^ 50"
  have "\<bar>r - p\<bar> \<le> h" "\<bar>p - q\<bar> \<le> h"
    using rounded_product_error [OF assms] e by (simp_all only: p_def q_def r_def h_def)
  then have "\<bar>r - q\<bar> \<le> h + h" by linarith
  then show ?thesis by (simp only: r_def q_def h_def half_ulps)
qed

lemma rounded_product_strict_mono:
  assumes "0 \<le> a" and "a < b" and "b < 2 ^ 24"
  shows "rounded_product a < rounded_product b"
proof -
  have a: "0 \<le> a" "a < 2 ^ 24" and b: "0 \<le> b" "b < 2 ^ 24" using assms by simp_all
  define k :: real where "k = literal_4_096 / 0x800000"
  define h :: real where "h = 1 / 2 ^ 50"
  have k: "h + h < k" by (simp add: k_def h_def literal_value)
  have "a + 1 \<le> b" using assms(2) by simp
  then have "real_of_int a + 1 \<le> real_of_int b" by (metis of_int_1 of_int_add of_int_le_iff)
  moreover have "0 \<le> k" by (simp add: k_def literal_value)
  ultimately have "(real_of_int a + 1) * k \<le> real_of_int b * k"
    by (rule mult_right_mono)
  then have s: "of_int a * k + k \<le> of_int b * k" by (simp add: algebra_simps)
  have "\<bar>rounded_product a - of_int a * k\<bar> \<le> h" "\<bar>rounded_product b - of_int b * k\<bar> \<le> h"
    using rounded_product_error [OF a] rounded_product_error [OF b]
    by (simp_all only: k_def h_def)
  with s k show ?thesis by linarith
qed

lemma rounded_product_double: "rounded_product (2 * n) = 2 * rounded_product n"
  using binary64_double [of "of_int n * (literal_4_096 / 0x800000)"]
  by (simp add: rounded_product_def algebra_simps)

text \<open>
  Claim C8. For every raw count of the 24-bit range, \<open>cap_val_to_pf\<close> returns
  \<open>raw_count \<times> (4.096 / 0x800000)\<close>: the product of the count and the float constant,
  correctly rounded, which is within \<open>2\<^sup>-\<^sup>4\<^sup>9\<close> of the exact product. A count of 0 gives
  0.0 and a count of \<open>0x800000\<close> gives the float 4.096. The map is strictly increasing
  on the 24-bit range, and doubling a count doubles the result exactly.
\<close>

theorem cap_val_to_pf_linear_monotonic:
  assumes "0 \<le> a" and "a < b" and "b < 2 ^ 24"
  shows "cap_val_to_pf 0 = Inr 0
         \<and> cap_val_to_pf 0x800000 = Inr literal_4_096
         \<and> cap_val_to_pf a = Inr (rounded_product a)
         \<and> cap_val_to_pf b = Inr (rounded_product b)
         \<and> \<bar>rounded_product a - exact_product a\<bar> \<le> 1 / 2 ^ 49
         \<and> \<bar>rounded_product b - exact_product b\<bar> \<le> 1 / 2 ^ 49
         \<and> rounded_product a < rounded_product b
         \<and> (2 * b < 2 ^ 24 \<longrightarrow> cap_val_to_pf (2 * b) = Inr (2 * rounded_product b))"
proof -
  have a: "0 \<le> a" "a < 2 ^ 24" and b: "0 \<le> b" "b < 2 ^ 24" using assms by simp_all
  have z: "cap_val_to_pf 0 = Inr 0"
    using cap_val_to_pf_rounded_product [where n=0] by (simp add: rounded_product_def binary64_def)
  have "binary64 (of_int 4611686018427388 * 2 powi (- 50)) = of_int 4611686018427388 * 2 powi (- 50)"
    by (rule binary64_exact) simp_all
  then have "rounded_product 0x800000 = literal_4_096"
    by (simp add: rounded_product_def literal_value)
  then have h: "cap_val_to_pf 0x800000 = Inr literal_4_096"
    using cap_val_to_pf_rounded_product [where n="0x800000"] by simp
  have d: "2 * b < 2 ^ 24 \<longrightarrow> cap_val_to_pf (2 * b) = Inr (2 * rounded_product b)"
    using cap_val_to_pf_rounded_product [where n="2 * b"] b(1) by (simp add: rounded_product_double)
  show ?thesis
    using z h d cap_val_to_pf_rounded_product [OF a] cap_val_to_pf_rounded_product [OF b]
      rounded_product_accuracy [OF a] rounded_product_accuracy [OF b]
      rounded_product_strict_mono [OF assms]
    by blast
qed

theorem cap_val_to_pf_linear_monotonic_witness:
  "(0::int) \<le> 1 \<and> (1::int) < 2 \<and> (2::int) < 2 ^ 24 \<and> (2::int) * 2 < 2 ^ 24
   \<and> cap_val_to_pf 0 = Inr 0
   \<and> cap_val_to_pf 0x800000 = Inr literal_4_096
   \<and> cap_val_to_pf 1 = Inr (rounded_product 1)
   \<and> cap_val_to_pf 2 = Inr (rounded_product 2)
   \<and> rounded_product 1 < rounded_product 2
   \<and> cap_val_to_pf 4 = Inr (2 * rounded_product 2)"
  using cap_val_to_pf_linear_monotonic [where a=1 and b=2] by simp

section \<open>Runs against the simulated chip\<close>

lemmas eval_defs =
  run_defs outcome_and_calls_def outcome_and_daca_def vt_data_def cap_gain_def
  cap_offset_def cap_dacb_set_def upto.simps

text \<open>
  Claim C1. The claim is that a scan whose sample is nonzero up to code \<open>k - 1\<close> and
  zero at code \<open>k\<close> makes \<open>cal_low_val\<close> return \<open>k - 1\<close>. With samples nonzero for
  the codes 0 to 49 and zero from code 50 on, the run started at code 0 leaves DAC A at
  \<open>{enabled, code 49}\<close> (the byte 177) and returns 50: the function returns
  \<open>start\<close>, the code at which the sample was zero, not the code \<open>start - 1\<close> it has
  just set.
\<close>

theorem calibration_returns_code_after_last_nonzero:
  "outcome_and_daca (cal_low_val (sim_host (threshold_sample 50)) 0 (driver0 (\<lambda>_. 0) True))
     = Some (Inr 50, 177)"
  using cal_low_val_finds_zero [where f="threshold_sample 50" and st=0 and k=50]
  by (simp add: threshold_sample_def)

text \<open>
  Claim C2. The claim is that a status with the excitation-fault flag set raises the
  hardware fault on the first status read and that the capacitance data is never read.
  With the status byte \<open>0x08\<close> (fault flag set, \<open>RDYCAP\<close> clear) the acquisition reads
  the status once, reads the three data registers and returns the sample; the LED is
  not set and no error is raised, because the loop tests \<open>RDYCAP\<close> before
  \<open>EXCERR\<close>.
\<close>

theorem ready_status_masks_excitation_fault:
  "outcome_and_calls
     (get_raw_cap_val (sim_host (\<lambda>_. 0x123456)) 10 (driver0 ((\<lambda>_. 0)(0 := 8)) True))
     = Some (Inr 0x123456,
         [Time,
          StartI2C 0 0x90, WriteByteI2C 0 0, EndI2C 0 True, ReadBytesI2C 0 0x91 1,
          StartI2C 0 0x90, WriteByteI2C 0 1, EndI2C 0 True, ReadBytesI2C 0 0x91 3])"
  by (simp add: eval_defs)

text \<open>
  The claim C3 as stated fails. With the sample 1000 at every code, the run started at
  code 0 leaves the loop without a zero sample, sets DAC A to \<open>{enabled, code 127}\<close>
  (the byte 255), finds the confirming samples neither zero nor \<open>0xFFFFFF\<close>, and
  returns: no calibration error is raised.
\<close>

theorem calibration_without_zero_returns_128:
  "outcome_and_daca (cal_low_val (sim_host (\<lambda>_. 1000)) 0 (driver0 (\<lambda>_. 0) True))
     = Some (Inr 128, 255)"
  using cal_low_val_without_zero [where f="\<lambda>_. 1000" and st=0]
  by simp

text \<open>
  Claim C3, amended. For every scan in which the sample is nonzero at every code from
  the starting code through 127, \<open>cal_low_val\<close> steps DAC A back to
  \<open>{enabled, code 127}\<close> and decides by the confirming samples taken there: it raises
  the calibration error, reporting the raw reading, when the confirming sample is clipped
  at \<open>0xFFFFFF\<close>, and it returns without an error when the confirming sample is neither
  zero nor \<open>0xFFFFFF\<close>. The samples are those of the simulated chip, 24 bits wide.
\<close>

theorem calibration_without_zero_decided_by_confirmation:
  assumes "\<And>c. 0 \<le> f c" and "\<And>c. f c < 16777216"
    and "\<And>c. st \<le> c \<Longrightarrow> c \<le> 127 \<Longrightarrow> f c \<noteq> 0"
    and "0 \<le> st" and "st \<le> 127"
  shows "verdict_and_daca (cal_low_val (sim_host f) st (driver0 (\<lambda>_. 0) True))
           = Some (if f 127 = 0xFFFFFF then Calibration_error 0xFFFFFF else Returned, 255)"
proof (cases "f 127 = 0xFFFFFF")
  case True
  then show ?thesis
    using cal_low_val_clipped [where f=f and st=st, OF assms]
    by (simp add: verdict_of_outcome classify_def)
next
  case False
  then show ?thesis
    using cal_low_val_without_zero [where f=f and st=st, OF assms]
    by (simp add: verdict_of_outcome classify_def)
qed

theorem calibration_without_zero_decided_by_confirmation_witness:
  "(0::int) \<le> 120 \<and> (120::int) \<le> 127
   \<and> verdict_and_daca (cal_low_val (sim_host (\<lambda>_. 0xFFFFFF)) 120 (driver0 (\<lambda>_. 0) True))
       = Some (Calibration_error 0xFFFFFF, 255)
   \<and> verdict_and_daca (cal_low_val (sim_host (\<lambda>_. 1000)) 120 (driver0 (\<lambda>_. 0) True))
       = Some (Returned, 255)"
  using calibration_without_zero_decided_by_confirmation [where f="\<lambda>_. 0xFFFFFF" and st=120]
    calibration_without_zero_decided_by_confirmation [where f="\<lambda>_. 1000" and st=120]
  by simp

text \<open>
  Claim C4. The claim is that every getter reads at the address of its own register
  group. On a chip whose register \<open>a\<close> holds \<open>16 + a\<close> and whose capacitance data
  is \<open>0x123456\<close>, \<open>vt_data\<close> selects address 1 and returns the capacitance data
  (the registers 4 to 6 hold \<open>0x141516\<close>), and \<open>cap_gain\<close> selects address 13 and
  returns the capacitance offset \<open>0x1D1E\<close> (the registers 15 and 16 hold
  \<open>0x1F20\<close>).
\<close>

theorem vt_data_and_cap_gain_read_other_registers:
  "(case vt_data (sim_host (\<lambda>_. 0x123456)) (driver0 (\<lambda>a. 16 + a) True) of
      (x, s) \<Rightarrow> (x, in_order s))
     = (Inr 0x123456,
        [StartI2C 0 0x90, WriteByteI2C 0 1, EndI2C 0 True, ReadBytesI2C 0 0x91 3])
   \<and> (case cap_gain (sim_host (\<lambda>_. 0x123456)) (driver0 (\<lambda>a. 16 + a) True) of
      (x, s) \<Rightarrow> (x, in_order s))
     = (Inr 0x1D1E,
        [StartI2C 0 0x90, WriteByteI2C 0 13, EndI2C 0 True, ReadBytesI2C 0 0x91 2])"
  by (simp add: eval_defs)

text \<open>
  Claim C5. The claim is that both DAC setters reject every code below 0 or above 127
  before any transport access. The DAC B setter compares with 177: for
  \<open>{disabled, code 150}\<close> it raises nothing and writes the byte 150 to register 12,
  which sets the enable bit.
\<close>

theorem cap_dacb_accepts_code_150:
  "(case cap_dacb_set (sim_host (\<lambda>_. 0)) \<lparr>DACBENB = False, DACB7bit = 150\<rparr>
           (driver0 (\<lambda>_. 0) True) of
      (x, s) \<Rightarrow> (x, in_order s, regs (i2cbus s) 12))
     = (Inr (),
        [StartI2C 0 0x90, WriteByteI2C 0 12, WriteByteI2C 0 150, EndI2C 0 False], 150)"
  by (simp add: eval_defs)

text \<open>
  Claim C6. The claim is that a calibration run first writes \<open>{enabled, code 0}\<close> to
  DAC A and only then discards two samples. In a run started at code 3 the first 23
  calls are the two discarded acquisitions, each reading the status and the capacitance
  data, and then the first write to register 11, which carries the byte 131, that is
  \<open>{enabled, code 3}\<close>: no write precedes the reads, and code 0 is never written.
\<close>

theorem calibration_reads_before_first_dac_write:
  "map_option (\<lambda>(x, s). (x, take 23 (in_order s)))
     (cal_low_val (sim_host (threshold_sample 5)) 3 (driver0 (\<lambda>_. 0) True))
     = Some (Inr 5,
         [Time,
          StartI2C 0 0x90, WriteByteI2C 0 0, EndI2C 0 True, ReadBytesI2C 0 0x91 1,
          StartI2C 0 0x90, WriteByteI2C 0 1, EndI2C 0 True, ReadBytesI2C 0 0x91 3,
          Time,
          StartI2C 0 0x90, WriteByteI2C 0 0, EndI2C 0 True, ReadBytesI2C 0 0x91 1,
          StartI2C 0 0x90, WriteByteI2C 0 1, EndI2C 0 True, ReadBytesI2C 0 0x91 3,
          Print_Cal 3,
          StartI2C 0 0x90, WriteByteI2C 0 11, WriteByteI2C 0 131, EndI2C 0 False])"
  by (simp add: eval_defs)

end
